theory Spec2Isabelle
  imports Complex_Main "HOL-Library.Word"
begin

section \<open>JavaScript values\<close>

text \<open>
  The mock MCP server is a single Node.js file. Its request handler works on JavaScript
  values: the result of \<^verbatim>\<open>JSON.parse\<close>, the property reads on it, and the object literals
  it builds for the reply. A JavaScript string is a sequence of UTF-16 code units, and
  \<^verbatim>\<open>.length\<close> counts code units; string literals of the source are ASCII and are
  embedded with \<open>lit\<close>.
\<close>

type_synonym jschar = "16 word"
type_synonym jsstring = "jschar list"

definition lit :: "string \<Rightarrow> jsstring" where
  "lit s = map of_char s"

text \<open>
  A number is an IEEE double. The handler only tests numbers for truthiness and converts
  them to text, so a double is kept as the rational it denotes, with the four special
  values apart; \<open>Finite 0\<close> is \<open>+0\<close>.
\<close>

datatype jsnum = Finite rat | NegZero | PosInfinity | NegInfinity | NaN

datatype jsval =
    JUndefined
  | JNull
  | JBool bool
  | JNum jsnum
  | JStr jsstring
  | JArr "jsval list"
  | JObj "(jsstring \<times> jsval) list"

text \<open>
  Exceptions the handler can meet: a \<^verbatim>\<open>TypeError\<close> of the language, the \<^verbatim>\<open>RangeError\<close> of
  a stack overflow, an I/O error of \<^verbatim>\<open>fs\<close>.
\<close>

datatype js_error = TypeError | RangeError | SystemError

definition bindE :: "js_error + 'a \<Rightarrow> ('a \<Rightarrow> js_error + 'b) \<Rightarrow> js_error + 'b" where
  "bindE m f = (case m of Inl e \<Rightarrow> Inl e | Inr v \<Rightarrow> f v)"

text \<open>Truthiness (\<^verbatim>\<open>ToBoolean\<close>): \<^verbatim>\<open>undefined\<close>, \<^verbatim>\<open>null\<close>, \<^verbatim>\<open>false\<close>, \<^verbatim>\<open>+0\<close>, \<^verbatim>\<open>-0\<close>, \<^verbatim>\<open>NaN\<close> and \<^verbatim>\<open>""\<close> are falsy.\<close>

fun truthy_num :: "jsnum \<Rightarrow> bool" where
  "truthy_num (Finite q) = (q \<noteq> 0)"
| "truthy_num NegZero = False"
| "truthy_num PosInfinity = True"
| "truthy_num NegInfinity = True"
| "truthy_num NaN = False"

fun truthy :: "jsval \<Rightarrow> bool" where
  "truthy JUndefined = False"
| "truthy JNull = False"
| "truthy (JBool b) = b"
| "truthy (JNum n) = truthy_num n"
| "truthy (JStr s) = (s \<noteq> [])"
| "truthy (JArr xs) = True"
| "truthy (JObj kvs) = True"

fun nullish :: "jsval \<Rightarrow> bool" where
  "nullish JUndefined = True"
| "nullish JNull = True"
| "nullish v = False"

text \<open>\<^verbatim>\<open>a || b\<close> and \<^verbatim>\<open>a ?? b\<close> on values already computed.\<close>

definition js_or :: "jsval \<Rightarrow> jsval \<Rightarrow> jsval" where
  "js_or a b = (if truthy a then a else b)"

definition js_coalesce :: "jsval \<Rightarrow> jsval \<Rightarrow> jsval" where
  "js_coalesce a b = (if nullish a then b else a)"

text \<open>
  The property names the handler reads. None of them is defined on
  \<^verbatim>\<open>Object.prototype\<close>, \<^verbatim>\<open>Array.prototype\<close>, \<^verbatim>\<open>String.prototype\<close>, \<^verbatim>\<open>Number.prototype\<close> or
  \<^verbatim>\<open>Boolean.prototype\<close>, and none is an own property of an array or of a string, so a read
  gives the own property of an object and \<^verbatim>\<open>undefined\<close> everywhere else; on \<^verbatim>\<open>null\<close>
  and \<^verbatim>\<open>undefined\<close> it throws.
\<close>

datatype property = p_method | p_id | p_params | p_name | p_tool | p_arguments | p_message

fun prop_name :: "property \<Rightarrow> jsstring" where
  "prop_name p_method = lit ''method''"
| "prop_name p_id = lit ''id''"
| "prop_name p_params = lit ''params''"
| "prop_name p_name = lit ''name''"
| "prop_name p_tool = lit ''tool''"
| "prop_name p_arguments = lit ''arguments''"
| "prop_name p_message = lit ''message''"

fun getprop :: "jsval \<Rightarrow> property \<Rightarrow> js_error + jsval" where
  "getprop JUndefined p = Inl TypeError"
| "getprop JNull p = Inl TypeError"
| "getprop (JObj kvs) p =
     Inr (case map_of kvs (prop_name p) of None \<Rightarrow> JUndefined | Some v \<Rightarrow> v)"
| "getprop v p = Inr JUndefined"

text \<open>Optional chaining \<^verbatim>\<open>v?.p\<close>.\<close>

definition opt_chain :: "jsval \<Rightarrow> property \<Rightarrow> js_error + jsval" where
  "opt_chain v p = (if nullish v then Inr JUndefined else getprop v p)"

text \<open>The nesting of a value: how many arrays and objects sit inside one another.\<close>

fun depth :: "jsval \<Rightarrow> nat"
  and depth_list :: "jsval list \<Rightarrow> nat"
  and depth_fields :: "(jsstring \<times> jsval) list \<Rightarrow> nat"
where
  "depth JUndefined = 0"
| "depth JNull = 0"
| "depth (JBool b) = 0"
| "depth (JNum n) = 0"
| "depth (JStr s) = 0"
| "depth (JArr xs) = Suc (depth_list xs)"
| "depth (JObj kvs) = Suc (depth_fields kvs)"
| "depth_list [] = 0"
| "depth_list (x # xs) = max (depth x) (depth_list xs)"
| "depth_fields [] = 0"
| "depth_fields ((k, v) # kvs) = max (depth v) (depth_fields kvs)"

section \<open>The runtime\<close>

text \<open>
  The built-in functions the server calls are parameters of the model:
  \<^verbatim>\<open>JSON.parse\<close> (\<open>None\<close> when it throws a \<^verbatim>\<open>SyntaxError\<close>), the text that
  \<^verbatim>\<open>JSON.stringify\<close> returns when it returns, the values on which it overflows the stack,
  the values on which the conversion of an array to a string does, the conversion of a
  number to a string, and the decoding of a \<^verbatim>\<open>Buffer\<close> of bytes to a string, which
  \<^verbatim>\<open>body += chunk\<close> performs.
\<close>

record runtime =
  JSON_parse :: "jsstring \<Rightarrow> jsval option"
  JSON_text :: "jsval \<Rightarrow> jsstring"
  stack_overflows :: "jsval \<Rightarrow> bool"
  join_overflows :: "jsval \<Rightarrow> bool"
  Number_toString :: "jsnum \<Rightarrow> jsstring"
  Buffer_toString :: "8 word list \<Rightarrow> jsstring"

text \<open>
  \<^verbatim>\<open>JSON.stringify\<close> recurses on the nesting of its argument and throws a
  \<^verbatim>\<open>RangeError\<close> when the stack overflows, which \<^verbatim>\<open>JSON.parse\<close> does not: a deeply
  nested request parses and then fails to serialise. Where that happens is left to the
  runtime, except that a value nested at most eight deep, as the objects the server
  builds around a shallow id are, never overflows. Values that come out of
  \<^verbatim>\<open>JSON.parse\<close> hold no function, no cycle and no \<^verbatim>\<open>BigInt\<close>, so there is no other way
  for \<^verbatim>\<open>JSON.stringify\<close> to throw.
\<close>

definition JSON_stringify :: "runtime \<Rightarrow> jsval \<Rightarrow> js_error + jsstring" where
  "JSON_stringify rt v =
     (if 8 < depth v \<and> stack_overflows rt v then Inl RangeError else Inr (JSON_text rt v))"

text \<open>
  The conversion to a string that a template literal \<^verbatim>\<open>`${v}`\<close> applies, on a stack
  deep enough. An array joins the
  conversions of its elements with commas, \<^verbatim>\<open>null\<close> and \<^verbatim>\<open>undefined\<close> elements giving
  the empty string. A plain object gives \<^verbatim>\<open>[object Object]\<close> through
  \<^verbatim>\<open>Object.prototype.toString\<close>, unless it has an own property \<^verbatim>\<open>toString\<close>: a parsed
  value is never callable, \<^verbatim>\<open>valueOf\<close> then returns no primitive either, and the
  conversion throws a \<^verbatim>\<open>TypeError\<close>.
\<close>

fun to_string :: "runtime \<Rightarrow> jsval \<Rightarrow> js_error + jsstring"
  and join_elems :: "runtime \<Rightarrow> jsval list \<Rightarrow> js_error + jsstring"
  and elem_string :: "runtime \<Rightarrow> jsval \<Rightarrow> js_error + jsstring"
where
  "to_string rt JUndefined = Inr (lit ''undefined'')"
| "to_string rt JNull = Inr (lit ''null'')"
| "to_string rt (JBool b) = Inr (if b then lit ''true'' else lit ''false'')"
| "to_string rt (JNum n) = Inr (Number_toString rt n)"
| "to_string rt (JStr s) = Inr s"
| "to_string rt (JArr xs) = join_elems rt xs"
| "to_string rt (JObj kvs) =
     (case map_of kvs (lit ''toString'') of
        None \<Rightarrow> Inr (lit ''[object Object]'')
      | Some f \<Rightarrow> Inl TypeError)"
| "join_elems rt [] = Inr []"
| "join_elems rt [x] = elem_string rt x"
| "join_elems rt (x # y # ys) =
     bindE (elem_string rt x) (\<lambda>a.
     bindE (join_elems rt (y # ys)) (\<lambda>b. Inr (a @ lit '','' @ b)))"
| "elem_string rt JUndefined = Inr []"
| "elem_string rt JNull = Inr []"
| "elem_string rt (JBool b) = to_string rt (JBool b)"
| "elem_string rt (JNum n) = to_string rt (JNum n)"
| "elem_string rt (JStr s) = to_string rt (JStr s)"
| "elem_string rt (JArr xs) = to_string rt (JArr xs)"
| "elem_string rt (JObj kvs) = to_string rt (JObj kvs)"

text \<open>
  \<^verbatim>\<open>`${v}`\<close> on the stack there is: \<^verbatim>\<open>Array.prototype.join\<close> recurses on nested
  arrays and, like \<^verbatim>\<open>JSON.stringify\<close>, throws a \<^verbatim>\<open>RangeError\<close> when the stack
  overflows, which again cannot happen on a value nested at most eight deep.
\<close>

definition template_literal :: "runtime \<Rightarrow> jsval \<Rightarrow> js_error + jsstring" where
  "template_literal rt v =
     (if 8 < depth v \<and> join_overflows rt v then Inl RangeError else to_string rt v)"

section \<open>Console, log files and the response object\<close>

text \<open>
  The world outside the handler: the lines printed by \<^verbatim>\<open>console.log\<close> (one list of
  arguments per call), the contents of the files, and the paths on which
  \<^verbatim>\<open>fs.appendFileSync\<close> fails (disk full, permission denied).
\<close>

record world =
  console :: "jsstring list list"
  files :: "jsstring \<Rightarrow> jsstring"
  fs_fails :: "jsstring \<Rightarrow> bool"

definition console_log :: "world \<Rightarrow> jsstring list \<Rightarrow> world" where
  "console_log w args = w\<lparr>console := console w @ [args]\<rparr>"

definition appendFileSync :: "world \<Rightarrow> jsstring \<Rightarrow> jsstring \<Rightarrow> js_error + world" where
  "appendFileSync w path data =
     (if fs_fails w path then Inl SystemError
      else Inr (w\<lparr>files := (files w)(path := files w path @ data)\<rparr>))"

definition newline :: jsstring where
  "newline = [0x0A]"

text \<open>The calls made on the response object \<^verbatim>\<open>res\<close>, in order.\<close>

datatype res_call =
    WriteHead nat "(jsstring \<times> jsstring) list"
  | Write jsstring
  | End "jsstring option"

definition content_type_json :: "(jsstring \<times> jsstring) list" where
  "content_type_json = [(lit ''Content-Type'', lit ''application/json'')]"

section \<open>The JSON-RPC envelopes\<close>

definition makeJsonRpcResult :: "runtime \<Rightarrow> jsval \<Rightarrow> jsval \<Rightarrow> js_error + jsstring" where
  "makeJsonRpcResult rt ident result =
     JSON_stringify rt
       (JObj [(lit ''jsonrpc'', JStr (lit ''2.0'')), (lit ''result'', result), (lit ''id'', ident)])"

definition makeJsonRpcError ::
  "runtime \<Rightarrow> jsval \<Rightarrow> int \<Rightarrow> jsstring \<Rightarrow> js_error + jsstring" where
  "makeJsonRpcError rt ident code message =
     JSON_stringify rt
       (JObj [(lit ''jsonrpc'', JStr (lit ''2.0'')),
              (lit ''error'', JObj [(lit ''code'', JNum (Finite (of_int code))),
                                    (lit ''message'', JStr message)]),
              (lit ''id'', ident)])"

text \<open>
  What a listener does on \<^verbatim>\<open>res\<close>: the calls it made, in order, and the exception that
  left it, if one did.
\<close>

type_synonym outcome = "res_call list \<times> js_error option"

text \<open>
  \<^verbatim>\<open>sendResult\<close> and \<^verbatim>\<open>sendError\<close>: the body is built first, outside any \<^verbatim>\<open>try\<close>, so
  an exception of \<^verbatim>\<open>JSON.stringify\<close> leaves the function before any call on \<^verbatim>\<open>res\<close>;
  the console line and the append to the response log sit in a \<^verbatim>\<open>try\<close> whose
  \<^verbatim>\<open>catch\<close> is empty; then the head and the body are written.
\<close>

definition log_response :: "world \<Rightarrow> jsstring \<Rightarrow> jsstring \<Rightarrow> world" where
  "log_response w label body =
     (let w1 = console_log w [label, body]
      in case appendFileSync w1 (lit ''/tmp/mcp-mock-responses.log'') (body @ newline) of
           Inl e \<Rightarrow> w1
         | Inr w2 \<Rightarrow> w2)"

definition sendResult :: "runtime \<Rightarrow> world \<Rightarrow> jsval \<Rightarrow> jsval \<Rightarrow> world \<times> outcome" where
  "sendResult rt w ident resultObj =
     (case makeJsonRpcResult rt ident resultObj of
        Inl e \<Rightarrow> (w, [], Some e)
      | Inr body \<Rightarrow>
          (log_response w (lit ''MCP mock response:'') body,
           [WriteHead 200 content_type_json, End (Some body)], None))"

definition sendError ::
  "runtime \<Rightarrow> world \<Rightarrow> jsval \<Rightarrow> int \<Rightarrow> jsstring \<Rightarrow> nat \<Rightarrow> world \<times> outcome" where
  "sendError rt w ident code message statusCode =
     (case makeJsonRpcError rt ident code message of
        Inl e \<Rightarrow> (w, [], Some e)
      | Inr body \<Rightarrow>
          (log_response w (lit ''MCP mock error response:'') body,
           [WriteHead statusCode content_type_json, End (Some body)], None))"

section \<open>The dispatcher\<close>

text \<open>The in-memory list of tools.\<close>

definition tools :: jsval where
  "tools = JArr [JObj
     [(lit ''name'', JStr (lit ''echo'')),
      (lit ''description'', JStr (lit ''Echoes the provided input back as result'')),
      (lit ''parameters'', JObj
         [(lit ''type'', JStr (lit ''object'')),
          (lit ''properties'', JObj [(lit ''message'', JObj [(lit ''type'', JStr (lit ''string''))])]),
          (lit ''required'', JArr [JStr (lit ''message'')])])]]"

definition initialize_result :: jsval where
  "initialize_result = JObj
     [(lit ''protocolVersion'', JStr (lit ''2025-11-25'')),
      (lit ''capabilities'', JObj
         [(lit ''supportsToolCalls'', JBool True), (lit ''supportsStreams'', JBool False)]),
      (lit ''serverInfo'', JObj
         [(lit ''name'', JStr (lit ''librechat-mcp-mock'')),
          (lit ''version'', JStr (lit ''0.1.0''))])]"

definition acceptedNoopMethods :: "jsval set" where
  "acceptedNoopMethods =
     {JStr (lit ''serverInfo''), JStr (lit ''getMetadata''), JStr (lit ''status''),
      JStr (lit ''ping'')}"

text \<open>
  \<^verbatim>\<open>params.f || params.tool?.f || dflt\<close>, the shape of both the tool name
  (\<^verbatim>\<open>f = name\<close>, default \<^verbatim>\<open>null\<close>) and the arguments (\<^verbatim>\<open>f = arguments\<close>, default \<^verbatim>\<open>{}\<close>).
  The right operand of \<^verbatim>\<open>||\<close> is evaluated only when the left one is falsy.
\<close>

definition or_tool_fallback :: "jsval \<Rightarrow> property \<Rightarrow> jsval \<Rightarrow> js_error + jsval" where
  "or_tool_fallback params f dflt =
     bindE (getprop params f) (\<lambda>a.
       if truthy a then Inr a
       else bindE (getprop params p_tool) (\<lambda>t.
            bindE (opt_chain t f) (\<lambda>b. Inr (js_or b dflt))))"

text \<open>The branch for \<^verbatim>\<open>tools/call\<close> and \<^verbatim>\<open>callTool\<close>.\<close>

definition call_tool :: "runtime \<Rightarrow> world \<Rightarrow> jsval \<Rightarrow> jsval \<Rightarrow> world \<times> outcome" where
  "call_tool rt w parsed ident =
     (case bindE (getprop parsed p_params) (\<lambda>pv.
             let params = js_or pv (JObj []) in
             bindE (or_tool_fallback params p_name JNull) (\<lambda>name.
             bindE (or_tool_fallback params p_arguments (JObj [])) (\<lambda>args.
               Inr (name, args)))) of
        Inl e \<Rightarrow> (w, [], Some e)
      | Inr (name, args) \<Rightarrow>
          if \<not> truthy name then
            sendError rt w ident (- 32602) (lit ''Missing tool name'') 400
          else if name = JStr (lit ''echo'') then
            (case getprop args p_message of
               Inl e \<Rightarrow> (w, [], Some e)
             | Inr m \<Rightarrow>
                 let message = js_or m (JStr []);
                     result = JObj [(lit ''type'', JStr (lit ''tool_result'')),
                                    (lit ''value'', JObj [(lit ''output'', message)])]
                 in sendResult rt w ident result)
          else
            (case template_literal rt name of
               Inl e \<Rightarrow> (w, [], Some e)
             | Inr s \<Rightarrow> sendError rt w ident (- 32000) (lit ''Tool not found: '' @ s) 404))"

text \<open>The chain of \<^verbatim>\<open>if\<close>s on \<^verbatim>\<open>method\<close>, in the order of the source.\<close>

definition dispatch ::
  "runtime \<Rightarrow> world \<Rightarrow> jsval \<Rightarrow> jsval \<Rightarrow> jsval \<Rightarrow> world \<times> outcome" where
  "dispatch rt w parsed method ident =
     (if method = JStr (lit ''listTools'') \<or> method = JStr (lit ''tools/list'') then
        sendResult rt w ident (JObj [(lit ''tools'', tools)])
      else if method = JStr (lit ''listResources'') \<or> method = JStr (lit ''resources/list'') then
        sendResult rt w ident (JObj [(lit ''resources'', JArr [])])
      else if method = JStr (lit ''listPrompts'') \<or> method = JStr (lit ''prompts/list'') then
        sendResult rt w ident (JObj [(lit ''prompts'', JArr [])])
      else if method = JStr (lit ''tools/call'') \<or> method = JStr (lit ''callTool'') then
        call_tool rt w parsed ident
      else if method = JStr (lit ''ping'') then
        sendResult rt w ident (JObj [])
      else if method = JStr (lit ''initialize'') \<or> method = JStr (lit ''init'')
              \<or> method = JStr (lit ''handshake'') then
        sendResult rt w ident initialize_result
      else if method \<in> acceptedNoopMethods then
        sendResult rt w ident (JObj [])
      else
        sendError rt w ident (- 32601) (lit ''Method not found'') 404)"

text \<open>
  The listener of the request's \<^verbatim>\<open>end\<close> event, on the accumulated \<^verbatim>\<open>body\<close>. On a
  parse failure the head is written and the response ended with the parse-error
  envelope, without the log files. Otherwise \<^verbatim>\<open>method\<close> and \<^verbatim>\<open>id\<close> are read; the
  request is printed, or a line saying that it cannot be serialised (the \<^verbatim>\<open>catch\<close> of
  that \<^verbatim>\<open>try\<close>); the log line is built, outside any \<^verbatim>\<open>try\<close>, printed and appended to
  the request log (in a \<^verbatim>\<open>try\<close> with an empty \<^verbatim>\<open>catch\<close>); and the method is
  dispatched. The result is the world afterwards, the calls made on \<^verbatim>\<open>res\<close> and the
  exception that left the listener, if any.
\<close>

definition log_request :: "world \<Rightarrow> jsstring \<Rightarrow> world" where
  "log_request w logLine =
     (let w1 = console_log w [lit ''MCP mock received request:'', logLine]
      in case appendFileSync w1 (lit ''/tmp/mcp-mock-requests.log'') (logLine @ newline) of
           Inl e \<Rightarrow> w1
         | Inr w2 \<Rightarrow> w2)"

definition on_end :: "runtime \<Rightarrow> world \<Rightarrow> jsstring \<Rightarrow> world \<times> outcome" where
  "on_end rt w body =
     (case JSON_parse rt body of
        None \<Rightarrow>
          (case makeJsonRpcError rt JNull (- 32700) (lit ''Parse error'') of
             Inl e \<Rightarrow> (w, [WriteHead 400 content_type_json], Some e)
           | Inr envelope \<Rightarrow>
               (w, [WriteHead 400 content_type_json, End (Some envelope)], None))
      | Some parsed \<Rightarrow>
          (case getprop parsed p_method of
             Inl e \<Rightarrow> (w, [], Some e)
           | Inr method \<Rightarrow>
               (case getprop parsed p_id of
                  Inl e \<Rightarrow> (w, [], Some e)
                | Inr i \<Rightarrow>
                    let ident = js_coalesce i JNull;
                        w1 = (case JSON_stringify rt parsed of
                                Inl e \<Rightarrow>
                                  console_log w [lit ''Incoming JSON-RPC request (unserializable)'']
                              | Inr text \<Rightarrow>
                                  console_log w [lit ''Incoming JSON-RPC request:'', text])
                    in (case getprop parsed p_params of
                          Inl e \<Rightarrow> (w1, [], Some e)
                        | Inr pv \<Rightarrow>
                            (case JSON_stringify rt
                                    (JObj [(lit ''method'', method), (lit ''id'', ident),
                                           (lit ''params'', pv)]) of
                               Inl e \<Rightarrow> (w1, [], Some e)
                             | Inr logLine \<Rightarrow>
                                 dispatch rt (log_request w1 logLine) parsed method ident)))))"

section \<open>The request listener and the life of a connection\<close>

text \<open>
  What the server keeps for one request: the calls on \<^verbatim>\<open>res\<close> that reached the socket,
  the accumulated \<^verbatim>\<open>body\<close>, whether \<^verbatim>\<open>req.socket.destroy()\<close> was called, the interval
  timer (the milliseconds left until its callback runs next, \<open>None\<close> when no interval is
  active) and which listeners are registered on \<^verbatim>\<open>req\<close>. A call on \<^verbatim>\<open>res\<close> after the
  socket was destroyed writes nothing.
\<close>

record conn =
  sent :: "res_call list"
  body :: jsstring
  socket_destroyed :: bool
  interval :: "nat option"
  data_end_listeners :: bool
  close_listener :: bool

definition new_conn :: conn where
  "new_conn = \<lparr>sent = [], body = [], socket_destroyed = False, interval = None,
               data_end_listeners = False, close_listener = False\<rparr>"

definition res_calls :: "conn \<Rightarrow> res_call list \<Rightarrow> conn" where
  "res_calls c calls = (if socket_destroyed c then c else c\<lparr>sent := sent c @ calls\<rparr>)"

definition sse_headers :: "(jsstring \<times> jsstring) list" where
  "sse_headers =
     [(lit ''Content-Type'', lit ''text/event-stream''),
      (lit ''Cache-Control'', lit ''no-cache''),
      (lit ''Connection'', lit ''keep-alive''),
      (lit ''Access-Control-Allow-Origin'', lit ''*'')]"

definition message_event :: jsstring where
  "message_event =
     lit ''event: message'' @ newline @ lit ''data: {\"status\":\"ok\"}'' @ newline @ newline"

definition ping_event :: jsstring where
  "ping_event = lit ''event: ping'' @ newline @ lit ''data: {}'' @ newline @ newline"

text \<open>
  The callback of \<^verbatim>\<open>http.createServer\<close>, on the request's method and URL: the health
  route, the event stream (which starts an interval of 15000 ms and listens for
  \<^verbatim>\<open>close\<close>), 405 for anything that is not a POST, and for a POST an empty \<^verbatim>\<open>body\<close>
  with listeners for \<^verbatim>\<open>data\<close> and \<^verbatim>\<open>end\<close>.
\<close>

definition request_listener :: "runtime \<Rightarrow> jsstring \<Rightarrow> jsstring \<Rightarrow> conn" where
  "request_listener rt req_method url =
     (if req_method = lit ''GET'' \<and> url = lit ''/health'' then
        res_calls new_conn
          (WriteHead 200 content_type_json #
           (case JSON_stringify rt (JObj [(lit ''status'', JStr (lit ''ok''))]) of
              Inl e \<Rightarrow> []
            | Inr text \<Rightarrow> [End (Some text)]))
      else if req_method = lit ''GET'' \<and> url = lit ''/sse'' then
        (res_calls new_conn [WriteHead 200 sse_headers, Write message_event])
          \<lparr>interval := Some 15000, close_listener := True\<rparr>
      else if req_method \<noteq> lit ''POST'' then
        res_calls new_conn [WriteHead 405 [], End None]
      else
        new_conn\<lparr>body := [], data_end_listeners := True\<rparr>)"

text \<open>The listener of \<^verbatim>\<open>data\<close>: the chunk is decoded and appended, then the length is checked.\<close>

definition on_data :: "runtime \<Rightarrow> conn \<Rightarrow> 8 word list \<Rightarrow> conn" where
  "on_data rt c chunk =
     (let c1 = c\<lparr>body := body c @ Buffer_toString rt chunk\<rparr>
      in if length (body c1) > 1000000 then c1\<lparr>socket_destroyed := True\<rparr> else c1)"

text \<open>
  The events of a connection: a chunk of the body arrives, the body ends, one
  millisecond passes, the client closes. An event reaches the listeners registered
  for it; the interval's callback writes a ping each time its 15000 ms have passed;
  the \<^verbatim>\<open>close\<close> listener clears the interval.
\<close>

datatype event = Data "8 word list" | EndOfBody | Tick | Close

fun step :: "runtime \<Rightarrow> world \<times> conn \<Rightarrow> event \<Rightarrow> world \<times> conn" where
  "step rt (w, c) (Data chunk) =
     (if data_end_listeners c then (w, on_data rt c chunk) else (w, c))"
| "step rt (w, c) EndOfBody =
     (if data_end_listeners c then
        (case on_end rt w (body c) of
           (w', calls, thrown) \<Rightarrow> (w', res_calls c calls))
      else (w, c))"
| "step rt (w, c) Tick =
     (case interval c of
        None \<Rightarrow> (w, c)
      | Some k \<Rightarrow>
          if k \<le> 1 then (w, (res_calls c [Write ping_event])\<lparr>interval := Some 15000\<rparr>)
          else (w, c\<lparr>interval := Some (k - 1)\<rparr>))"
| "step rt (w, c) Close =
     (if close_listener c then (w, c\<lparr>interval := None\<rparr>) else (w, c))"

definition run :: "runtime \<Rightarrow> world \<times> conn \<Rightarrow> event list \<Rightarrow> world \<times> conn" where
  "run rt s evs = foldl (step rt) s evs"

section \<open>A sample runtime\<close>

text \<open>
  \<^verbatim>\<open>Buffer.prototype.toString()\<close> decodes UTF-8 (the decoder of the Encoding standard:
  an ill-formed sequence gives U+FFFD and the offending byte is read again) and yields
  UTF-16: one code unit for a code point below \<open>0x10000\<close>, a surrogate pair above.
\<close>

record utf8_state =
  code_point :: nat
  bytes_seen :: nat
  bytes_needed :: nat
  lower_boundary :: nat
  upper_boundary :: nat

definition utf8_init :: utf8_state where
  "utf8_init = \<lparr>code_point = 0, bytes_seen = 0, bytes_needed = 0,
                lower_boundary = 0x80, upper_boundary = 0xBF\<rparr>"

definition utf8_lead :: "nat \<Rightarrow> nat list \<times> utf8_state" where
  "utf8_lead b =
     (if b \<le> 0x7F then ([b], utf8_init)
      else if 0xC2 \<le> b \<and> b \<le> 0xDF then
        ([], utf8_init\<lparr>bytes_needed := 1, code_point := b - 0xC0\<rparr>)
      else if 0xE0 \<le> b \<and> b \<le> 0xEF then
        ([], utf8_init\<lparr>bytes_needed := 2, code_point := b - 0xE0,
                        lower_boundary := (if b = 0xE0 then 0xA0 else 0x80),
                        upper_boundary := (if b = 0xED then 0x9F else 0xBF)\<rparr>)
      else if 0xF0 \<le> b \<and> b \<le> 0xF4 then
        ([], utf8_init\<lparr>bytes_needed := 3, code_point := b - 0xF0,
                        lower_boundary := (if b = 0xF0 then 0x90 else 0x80),
                        upper_boundary := (if b = 0xF4 then 0x8F else 0xBF)\<rparr>)
      else ([0xFFFD], utf8_init))"

definition utf8_step :: "utf8_state \<Rightarrow> nat \<Rightarrow> nat list \<times> utf8_state" where
  "utf8_step st b =
     (if bytes_needed st = 0 then utf8_lead b
      else if b < lower_boundary st \<or> upper_boundary st < b then
        (0xFFFD # fst (utf8_lead b), snd (utf8_lead b))
      else if bytes_seen st + 1 = bytes_needed st then
        ([code_point st * 64 + (b - 0x80)], utf8_init)
      else
        ([], st\<lparr>code_point := code_point st * 64 + (b - 0x80),
                bytes_seen := bytes_seen st + 1,
                lower_boundary := 0x80, upper_boundary := 0xBF\<rparr>))"

fun utf8_run :: "utf8_state \<Rightarrow> 8 word list \<Rightarrow> nat list" where
  "utf8_run st [] = (if bytes_needed st = 0 then [] else [0xFFFD])"
| "utf8_run st (b # bs) = fst (utf8_step st (unat b)) @ utf8_run (snd (utf8_step st (unat b))) bs"

definition utf16_units :: "nat \<Rightarrow> jsstring" where
  "utf16_units cp =
     (if cp < 0x10000 then [of_nat cp]
      else [of_nat (0xD800 + (cp - 0x10000) div 0x400),
            of_nat (0xDC00 + (cp - 0x10000) mod 0x400)])"

definition utf8_decode :: "8 word list \<Rightarrow> jsstring" where
  "utf8_decode bytes = concat (map utf16_units (utf8_run utf8_init bytes))"

text \<open>
  The values of \<^verbatim>\<open>JSON.parse\<close>, of the text of \<^verbatim>\<open>JSON.stringify\<close> and of the
  conversion of numbers at the arguments of the worked examples. \<open>sample_parse\<close> gives
  \<open>None\<close> and the other two the empty string outside their tables; the examples stay
  inside. The sample stack overflows beyond ten thousand levels of nesting.
\<close>

definition ascii_bytes :: "string \<Rightarrow> 8 word list" where
  "ascii_bytes s = map of_char s"

definition echo_request :: jsval where
  "echo_request = JObj
     [(lit ''jsonrpc'', JStr (lit ''2.0'')), (lit ''method'', JStr (lit ''tools/call'')),
      (lit ''id'', JNum (Finite 2)),
      (lit ''params'', JObj [(lit ''name'', JStr (lit ''echo'')),
                             (lit ''arguments'', JObj [(lit ''message'', JStr (lit ''hi''))])])]"

definition unknown_request :: jsval where
  "unknown_request = JObj [(lit ''method'', JStr (lit ''unknown-thing'')), (lit ''id'', JNum (Finite 5))]"

definition empty_name_request :: jsval where
  "empty_name_request = JObj
     [(lit ''method'', JStr (lit ''tools/call'')), (lit ''id'', JNum (Finite 0)),
      (lit ''params'', JObj [(lit ''name'', JStr [])])]"

definition object_name_request :: jsval where
  "object_name_request = JObj
     [(lit ''method'', JStr (lit ''tools/call'')), (lit ''id'', JNum (Finite 7)),
      (lit ''params'', JObj [(lit ''name'', JObj [(lit ''toString'', JNum (Finite 1))])])]"

text \<open>A request whose id is the number \<^verbatim>\<open>1e400\<close>, which no double holds, and its reply.\<close>

definition huge_id_request :: jsval where
  "huge_id_request = JObj
     [(lit ''jsonrpc'', JStr (lit ''2.0'')), (lit ''method'', JStr (lit ''ping'')),
      (lit ''id'', JNum PosInfinity)]"

definition huge_id_reply :: jsval where
  "huge_id_reply = JObj
     [(lit ''jsonrpc'', JStr (lit ''2.0'')), (lit ''result'', JObj []), (lit ''id'', JNull)]"

text \<open>
  Two requests made longer than 1000000 characters by a property \<^verbatim>\<open>pad\<close> holding a
  million letters a, with the chunks of at most 65536 bytes in which they arrive.
\<close>

definition padded_unknown_text :: jsstring where
  "padded_unknown_text =
     lit ''{\"method\":\"unknown-thing\",\"id\":5,\"pad\":\"'' @ replicate 1000000 0x61 @ lit ''\"}''"

definition padded_unknown_request :: jsval where
  "padded_unknown_request = JObj
     [(lit ''method'', JStr (lit ''unknown-thing'')), (lit ''id'', JNum (Finite 5)),
      (lit ''pad'', JStr (replicate 1000000 0x61))]"

definition padded_unknown_chunks :: "8 word list list" where
  "padded_unknown_chunks =
     ascii_bytes ''{\"method\":\"unknown-thing\",\"id\":5,\"pad\":\"'' #
     replicate 16 (replicate 62500 0x61) @ [ascii_bytes ''\"}'']"

definition padded_empty_name_text :: jsstring where
  "padded_empty_name_text =
     lit ''{\"method\":\"tools/call\",\"id\":0,\"params\":{\"name\":\"\",\"pad\":\"'' @
     replicate 1000000 0x61 @ lit ''\"}}''"

definition padded_empty_name_request :: jsval where
  "padded_empty_name_request = JObj
     [(lit ''method'', JStr (lit ''tools/call'')), (lit ''id'', JNum (Finite 0)),
      (lit ''params'', JObj [(lit ''name'', JStr []), (lit ''pad'', JStr (replicate 1000000 0x61))])]"

definition padded_empty_name_chunks :: "8 word list list" where
  "padded_empty_name_chunks =
     ascii_bytes ''{\"method\":\"tools/call\",\"id\":0,\"params\":{\"name\":\"\",\"pad\":\"'' #
     replicate 16 (replicate 62500 0x61) @ [ascii_bytes ''\"}}'']"

definition sample_table :: "(jsstring \<times> jsval) list" where
  "sample_table =
     [(lit ''{\"jsonrpc\":\"2.0\",\"method\":\"tools/call\",\"id\":2,\"params\":{\"name\":\"echo\",\"arguments\":{\"message\":\"hi\"}}}'',
       echo_request),
      (lit ''{\"method\":\"unknown-thing\",\"id\":5}'', unknown_request),
      (lit ''{\"method\":\"tools/call\",\"id\":0,\"params\":{\"name\":\"\"}}'', empty_name_request),
      (lit ''{\"method\":\"tools/call\",\"id\":7,\"params\":{\"name\":{\"toString\":1}}}'',
       object_name_request),
      (lit ''{\"jsonrpc\":\"2.0\",\"method\":\"ping\",\"id\":1e400}'', huge_id_request),
      (lit ''{\"jsonrpc\":\"2.0\",\"result\":{},\"id\":null}'', huge_id_reply),
      (lit ''null'', JNull),
      (lit ''42'', JNum (Finite 42))]"

definition sample_parse :: "jsstring \<Rightarrow> jsval option" where
  "sample_parse text =
     (if text = padded_unknown_text then Some padded_unknown_request
      else if text = padded_empty_name_text then Some padded_empty_name_request
      else map_of sample_table text)"

definition sample_text :: "jsval \<Rightarrow> jsstring" where
  "sample_text v =
     (case map_of
        [(JObj [(lit ''jsonrpc'', JStr (lit ''2.0'')),
                (lit ''result'', JObj [(lit ''type'', JStr (lit ''tool_result'')),
                                       (lit ''value'', JObj [(lit ''output'', JStr (lit ''hi''))])]),
                (lit ''id'', JNum (Finite 2))],
          lit ''{\"jsonrpc\":\"2.0\",\"result\":{\"type\":\"tool_result\",\"value\":{\"output\":\"hi\"}},\"id\":2}''),
         (JObj [(lit ''jsonrpc'', JStr (lit ''2.0'')),
                (lit ''error'', JObj [(lit ''code'', JNum (Finite (- 32601))),
                                      (lit ''message'', JStr (lit ''Method not found''))]),
                (lit ''id'', JNum (Finite 5))],
          lit ''{\"jsonrpc\":\"2.0\",\"error\":{\"code\":-32601,\"message\":\"Method not found\"},\"id\":5}''),
         (JObj [(lit ''jsonrpc'', JStr (lit ''2.0'')),
                (lit ''error'', JObj [(lit ''code'', JNum (Finite (- 32601))),
                                      (lit ''message'', JStr (lit ''Method not found''))]),
                (lit ''id'', JNull)],
          lit ''{\"jsonrpc\":\"2.0\",\"error\":{\"code\":-32601,\"message\":\"Method not found\"},\"id\":null}''),
         (JObj [(lit ''jsonrpc'', JStr (lit ''2.0'')),
                (lit ''error'', JObj [(lit ''code'', JNum (Finite (- 32602))),
                                      (lit ''message'', JStr (lit ''Missing tool name''))]),
                (lit ''id'', JNum (Finite 0))],
          lit ''{\"jsonrpc\":\"2.0\",\"error\":{\"code\":-32602,\"message\":\"Missing tool name\"},\"id\":0}''),
         (JObj [(lit ''jsonrpc'', JStr (lit ''2.0'')),
                (lit ''error'', JObj [(lit ''code'', JNum (Finite (- 32700))),
                                      (lit ''message'', JStr (lit ''Parse error''))]),
                (lit ''id'', JNull)],
          lit ''{\"jsonrpc\":\"2.0\",\"error\":{\"code\":-32700,\"message\":\"Parse error\"},\"id\":null}''),
         (JObj [(lit ''jsonrpc'', JStr (lit ''2.0'')), (lit ''result'', JObj []),
                (lit ''id'', JNum PosInfinity)],
          lit ''{\"jsonrpc\":\"2.0\",\"result\":{},\"id\":null}'')]
        v of
        None \<Rightarrow> []
      | Some s \<Rightarrow> s)"

definition sample_number :: "jsnum \<Rightarrow> jsstring" where
  "sample_number n = (if n = Finite 5 then lit ''5'' else if n = Finite 42 then lit ''42'' else [])"

definition sample_runtime :: runtime where
  "sample_runtime = \<lparr>JSON_parse = sample_parse, JSON_text = sample_text,
                      stack_overflows = (\<lambda>v. 10000 < depth v),
                      join_overflows = (\<lambda>v. 1000 < depth v),
                      Number_toString = sample_number, Buffer_toString = utf8_decode\<rparr>"

definition quiet_world :: world where
  "quiet_world = \<lparr>console = [], files = (\<lambda>path. []), fs_fails = (\<lambda>path. False)\<rparr>"

definition failing_world :: world where
  "failing_world = \<lparr>console = [], files = (\<lambda>path. []), fs_fails = (\<lambda>path. True)\<rparr>"

text \<open>
  Two request bodies for the size check, in chunks of at most 65536 bytes: 500001 times
  the two bytes of U+00E9 (1000002 bytes, which decode to 500001 code units), and 1048576
  times the letter a.
\<close>

definition two_byte_chunks :: "8 word list list" where
  "two_byte_chunks =
     replicate 15 (concat (replicate 32768 [0xC3, 0xA9])) @ [concat (replicate 8481 [0xC3, 0xA9])]"

definition ascii_chunks :: "8 word list list" where
  "ascii_chunks = replicate 16 (replicate 65536 0x61)"

text \<open>The bytes of four small requests, in the chunks in which they arrive.\<close>

definition brace_chunks :: "8 word list list" where
  "brace_chunks = [ascii_bytes ''{'']"

definition unknown_chunks :: "8 word list list" where
  "unknown_chunks = [ascii_bytes ''{\"method\":\"unknown'', ascii_bytes ''-thing\",\"id\":5}'']"

definition empty_name_chunks :: "8 word list list" where
  "empty_name_chunks =
     [ascii_bytes ''{\"method\":\"tools/call\",\"id\":0,'', ascii_bytes ''\"params\":{\"name\":\"\"}}'']"

definition huge_id_chunks :: "8 word list list" where
  "huge_id_chunks = [ascii_bytes ''{\"jsonrpc\":\"2.0\",\"method\":\"ping\",\"id\":1e400}'']"

section \<open>Basic facts\<close>

lemma of_char_less_256: "(of_char c :: nat) < 256"
proof -
  have "(of_char c :: nat) mod 256 < 256" by simp
  then show ?thesis by (simp only: of_char_mod_256)
qed

lemma unat_of_char16: "unat (of_char c :: jschar) = of_char c"
proof -
  have "(of_char c :: jschar) = word_of_nat (of_char c)"
    by (simp add: of_nat_of_char)
  moreover have "(of_char c :: nat) < 2 ^ 16"
    by (rule less_trans [OF of_char_less_256]) simp
  ultimately show ?thesis
    by (simp add: unat_of_nat)
qed

lemma unat_of_char8: "unat (of_char c :: 8 word) = of_char c"
proof -
  have "(of_char c :: 8 word) = word_of_nat (of_char c)"
    by (simp add: of_nat_of_char)
  moreover have "(of_char c :: nat) < 2 ^ 8"
    using of_char_less_256 [of c] by simp
  ultimately show ?thesis
    by (simp add: unat_of_nat)
qed

lemma of_char16_eq_iff: "(of_char c :: jschar) = of_char d \<longleftrightarrow> c = d"
proof
  assume "(of_char c :: jschar) = of_char d"
  then have "unat (of_char c :: jschar) = unat (of_char d :: jschar)" by simp
  then show "c = d" by (simp add: unat_of_char16)
qed simp

lemma lit_eq_iff [simp]: "lit a = lit b \<longleftrightarrow> a = b"
proof -
  have "inj (of_char :: char \<Rightarrow> jschar)"
    by (rule injI) (simp add: of_char16_eq_iff)
  then show ?thesis
    by (simp add: lit_def inj_map_eq_map)
qed

lemma lit_eq_Nil [simp]: "lit s = [] \<longleftrightarrow> s = []" "[] = lit s \<longleftrightarrow> s = []"
  by (auto simp add: lit_def)

lemma length_lit [simp]: "length (lit s) = length s"
  by (simp add: lit_def)

lemma lit_append: "lit a @ lit b = lit (a @ b)"
  by (simp add: lit_def)

text \<open>The nesting bound: shallow values always serialise.\<close>

lemma shallow_stringify: "depth v \<le> 8 \<Longrightarrow> JSON_stringify rt v = Inr (JSON_text rt v)"
  by (simp add: JSON_stringify_def)

text \<open>A property read throws exactly on \<^verbatim>\<open>null\<close> and \<^verbatim>\<open>undefined\<close>.\<close>

lemma getprop_Inr:
  "\<not> nullish x \<Longrightarrow>
   getprop x p = Inr (case x of
                        JObj kvs \<Rightarrow> (case map_of kvs (prop_name p) of None \<Rightarrow> JUndefined | Some v \<Rightarrow> v)
                      | _ \<Rightarrow> JUndefined)"
  by (cases x) simp_all

lemma getprop_nullish: "nullish x \<Longrightarrow> getprop x p = Inl TypeError"
  by (cases x) simp_all

lemma coalesce_null: "js_coalesce v JNull = (if v = JUndefined then JNull else v)"
  by (cases v) (simp_all add: js_coalesce_def)

text \<open>\<^verbatim>\<open>parsed.id ?? null\<close>, read off the parsed value.\<close>

lemma coalesced_id:
  assumes "getprop parsed p_id = Inr i"
  shows "js_coalesce i JNull =
         (case parsed of
            JObj kvs \<Rightarrow>
              (case map_of kvs (lit ''id'') of
                 None \<Rightarrow> JNull
               | Some v \<Rightarrow> if v = JUndefined then JNull else v)
          | _ \<Rightarrow> JNull)"
  using assms
  by (cases parsed) (auto simp add: coalesce_null split: option.splits)

section \<open>The end listener\<close>

lemma parse_error_envelope:
  "makeJsonRpcError rt JNull code message =
   Inr (JSON_text rt
     (JObj [(lit ''jsonrpc'', JStr (lit ''2.0'')),
            (lit ''error'', JObj [(lit ''code'', JNum (Finite (of_int code))),
                                  (lit ''message'', JStr message)]),
            (lit ''id'', JNull)]))"
  by (simp add: makeJsonRpcError_def shallow_stringify)

lemma on_end_unparsed:
  assumes "JSON_parse rt raw = None"
  shows "on_end rt w raw =
    (w, [WriteHead 400 content_type_json,
         End (Some (JSON_text rt
           (JObj [(lit ''jsonrpc'', JStr (lit ''2.0'')),
                  (lit ''error'', JObj [(lit ''code'', JNum (Finite (- 32700))),
                                        (lit ''message'', JStr (lit ''Parse error''))]),
                  (lit ''id'', JNull)])))], None)"
  using assms by (simp add: on_end_def parse_error_envelope)

lemma on_end_nullish:
  assumes "JSON_parse rt raw = Some parsed" "nullish parsed"
  shows "on_end rt w raw = (w, [], Some TypeError)"
  using assms by (simp add: on_end_def getprop_nullish)

text \<open>After a successful parse of anything but \<^verbatim>\<open>null\<close>: the log line, then the dispatch.\<close>

lemma on_end_parsed:
  assumes "JSON_parse rt raw = Some parsed"
    and "getprop parsed p_method = Inr m"
    and "getprop parsed p_id = Inr i"
    and "getprop parsed p_params = Inr pv"
  shows "\<exists>w1. on_end rt w raw =
     (case JSON_stringify rt
             (JObj [(lit ''method'', m), (lit ''id'', js_coalesce i JNull), (lit ''params'', pv)]) of
        Inl e \<Rightarrow> (w1, [], Some e)
      | Inr logLine \<Rightarrow> dispatch rt (log_request w1 logLine) parsed m (js_coalesce i JNull))"
  using assms by (simp add: on_end_def Let_def del: getprop.simps) blast

lemma snd_sendResult:
  "snd (sendResult rt w i r) =
   (case makeJsonRpcResult rt i r of
      Inl e \<Rightarrow> ([], Some e)
    | Inr b \<Rightarrow> ([WriteHead 200 content_type_json, End (Some b)], None))"
  by (simp add: sendResult_def split: sum.splits)

lemma snd_sendError:
  "snd (sendError rt w i c m s) =
   (case makeJsonRpcError rt i c m of
      Inl e \<Rightarrow> ([], Some e)
    | Inr b \<Rightarrow> ([WriteHead s content_type_json, End (Some b)], None))"
  by (simp add: sendError_def split: sum.splits)

lemma dispatch_default:
  assumes "m \<notin> JStr ` lit ` {''listTools'', ''tools/list'', ''listResources'', ''resources/list'',
            ''listPrompts'', ''prompts/list'', ''tools/call'', ''callTool'',
            ''initialize'', ''init'', ''handshake'', ''ping'', ''serverInfo'', ''getMetadata'',
            ''status''}"
  shows "dispatch rt w parsed m i = sendError rt w i (- 32601) (lit ''Method not found'') 404"
  using assms
  by (simp add: dispatch_def acceptedNoopMethods_def)

text \<open>A sender that writes anything writes one head and one end around the envelope it serialised.\<close>

lemma send_result_shape:
  assumes "fst (snd (sendResult rt w i r)) \<noteq> []"
  shows "\<exists>reply. fst (snd (sendResult rt w i r)) = [WriteHead 200 content_type_json, End (Some reply)] \<and>
           JSON_stringify rt
             (JObj [(lit ''jsonrpc'', JStr (lit ''2.0'')), (lit ''result'', r), (lit ''id'', i)]) =
           Inr reply"
  using assms by (simp add: sendResult_def makeJsonRpcResult_def split: sum.splits)

lemma send_error_shape:
  assumes "fst (snd (sendError rt w i c m s)) \<noteq> []"
  shows "\<exists>reply payload. fst (snd (sendError rt w i c m s)) = [WriteHead s content_type_json, End (Some reply)] \<and>
           JSON_stringify rt
             (JObj [(lit ''jsonrpc'', JStr (lit ''2.0'')), (lit ''error'', payload), (lit ''id'', i)]) =
           Inr reply"
  using assms by (auto simp add: sendError_def makeJsonRpcError_def split: sum.splits)

text \<open>Every way out of the dispatcher is an exception before any call, or one of the two senders.\<close>

lemma call_tool_cases:
  assumes "\<And>w' e. P (w', [], Some e)"
    and "\<And>res. P (sendResult rt w i res)"
    and "\<And>c m s. P (sendError rt w i c m s)"
  shows "P (call_tool rt w parsed i)"
  unfolding call_tool_def Let_def
  by (simp add: assms split: sum.splits prod.splits)

lemma dispatch_cases:
  assumes "\<And>w' e. P (w', [], Some e)"
    and "\<And>res. P (sendResult rt w i res)"
    and "\<And>c m s. P (sendError rt w i c m s)"
  shows "P (dispatch rt w parsed m i)"
  unfolding dispatch_def
  by (simp add: assms call_tool_cases [where P = P])

lemma dispatch_shape:
  assumes "fst (snd (dispatch rt w parsed m i)) \<noteq> []"
  shows "\<exists>status key payload reply. (key = lit ''result'' \<or> key = lit ''error'') \<and>
     fst (snd (dispatch rt w parsed m i)) = [WriteHead status content_type_json, End (Some reply)] \<and>
     JSON_stringify rt
       (JObj [(lit ''jsonrpc'', JStr (lit ''2.0'')), (key, payload), (lit ''id'', i)]) = Inr reply"
proof -
  let ?P = "\<lambda>r :: world \<times> outcome. fst (snd r) = [] \<or>
     (\<exists>status key payload reply. (key = lit ''result'' \<or> key = lit ''error'') \<and>
     fst (snd r) = [WriteHead status content_type_json, End (Some reply)] \<and>
     JSON_stringify rt
       (JObj [(lit ''jsonrpc'', JStr (lit ''2.0'')), (key, payload), (lit ''id'', i)]) = Inr reply)"
  have "?P (dispatch rt w parsed m i)"
  proof (rule dispatch_cases [where P = ?P])
    fix w' :: world and e
    show "?P (w', [], Some e)" by simp
  next
    fix res
    show "?P (sendResult rt w i res)"
      using send_result_shape [of rt w i res] by blast
  next
    fix c msg s
    show "?P (sendError rt w i c msg s)"
      using send_error_shape [of rt w i c msg s] by blast
  qed
  with assms show ?thesis by blast
qed

lemma on_end_shape:
  assumes "JSON_parse rt raw = Some parsed"
    and "fst (snd (on_end rt w raw)) \<noteq> []"
  shows "\<exists>status key payload reply. (key = lit ''result'' \<or> key = lit ''error'') \<and>
     fst (snd (on_end rt w raw)) = [WriteHead status content_type_json, End (Some reply)] \<and>
     JSON_stringify rt
       (JObj [(lit ''jsonrpc'', JStr (lit ''2.0'')), (key, payload),
              (lit ''id'',
               case parsed of
                 JObj kvs \<Rightarrow>
                   (case map_of kvs (lit ''id'') of
                      None \<Rightarrow> JNull
                    | Some v \<Rightarrow> if v = JUndefined then JNull else v)
               | _ \<Rightarrow> JNull)]) = Inr reply"
proof -
  have nn: "\<not> nullish parsed"
    using assms on_end_nullish [of rt raw parsed w] by auto
  obtain m i pv where g: "getprop parsed p_method = Inr m" "getprop parsed p_id = Inr i"
    "getprop parsed p_params = Inr pv"
    using getprop_Inr [OF nn] by blast
  from on_end_parsed [OF assms(1) g, of w]
  obtain w1 where d: "on_end rt w raw =
     (case JSON_stringify rt
             (JObj [(lit ''method'', m), (lit ''id'', js_coalesce i JNull), (lit ''params'', pv)]) of
        Inl e \<Rightarrow> (w1, [], Some e)
      | Inr logLine \<Rightarrow> dispatch rt (log_request w1 logLine) parsed m (js_coalesce i JNull))"
    by blast
  show ?thesis
  proof (cases "JSON_stringify rt
             (JObj [(lit ''method'', m), (lit ''id'', js_coalesce i JNull), (lit ''params'', pv)])")
    case (Inl e)
    with d assms(2) show ?thesis by simp
  next
    case (Inr l)
    with d have "on_end rt w raw = dispatch rt (log_request w1 l) parsed m (js_coalesce i JNull)"
      by simp
    with assms(2) dispatch_shape [of rt "log_request w1 l" parsed m "js_coalesce i JNull"]
    show ?thesis
      by (simp add: coalesced_id [OF g(2)])
  qed
qed

text \<open>The fallback chain never throws on parameters that are not \<^verbatim>\<open>null\<close>.\<close>

lemma or_tool_fallback_Inr:
  assumes "\<not> nullish params"
  shows "\<exists>v. or_tool_fallback params f d = Inr v"
proof -
  obtain a where a: "getprop params f = Inr a"
    using getprop_Inr [OF assms] by blast
  obtain t where t: "getprop params p_tool = Inr t"
    using getprop_Inr [OF assms] by blast
  have "\<exists>b. opt_chain t f = Inr b"
    using getprop_Inr [of t f] by (simp add: opt_chain_def)
  then show ?thesis
    by (auto simp add: or_tool_fallback_def bindE_def a t)
qed

lemma opt_chain_falsy:
  assumes "prop_name f = k"
    and "case t of
           JObj ts \<Rightarrow> (case map_of ts k of None \<Rightarrow> True | Some tn \<Rightarrow> \<not> truthy tn)
         | _ \<Rightarrow> True"
  shows "\<exists>b. opt_chain t f = Inr b \<and> \<not> truthy b"
  using assms by (cases t) (auto simp add: opt_chain_def split: option.splits)

section \<open>Connections\<close>

lemma run_Nil [simp]: "run rt s [] = s"
  by (simp add: run_def)

lemma run_Cons [simp]: "run rt s (ev # evs) = run rt (step rt s ev) evs"
  by (simp add: run_def)

lemma run_append: "run rt s (xs @ ys) = run rt (run rt s xs) ys"
  by (simp add: run_def)

lemma post_listener:
  "request_listener rt (lit ''POST'') url = new_conn\<lparr>body := [], data_end_listeners := True\<rparr>"
  by (simp add: request_listener_def)


text \<open>Chunks only grow \<open>body\<close>, and destroy the socket once it is too long.\<close>

lemma run_data:
  assumes "data_end_listeners c"
  shows "run rt (w, c) (map Data cs) =
         (w, c\<lparr>body := body c @ concat (map (Buffer_toString rt) cs),
               socket_destroyed :=
                 socket_destroyed c \<or>
                 (cs \<noteq> [] \<and> 1000000 < length (body c @ concat (map (Buffer_toString rt) cs)))\<rparr>)"
  using assms
proof (induction cs arbitrary: c)
  case Nil
  then show ?case by simp
next
  case (Cons x xs)
  let ?c1 = "on_data rt c x"
  have l: "data_end_listeners ?c1"
    using Cons.prems by (simp add: on_data_def Let_def)
  have "run rt (w, c) (map Data (x # xs)) = run rt (w, ?c1) (map Data xs)"
    using Cons.prems by simp
  also have "\<dots> = (w, ?c1\<lparr>body := body ?c1 @ concat (map (Buffer_toString rt) xs),
               socket_destroyed :=
                 socket_destroyed ?c1 \<or>
                 (xs \<noteq> [] \<and> 1000000 < length (body ?c1 @ concat (map (Buffer_toString rt) xs)))\<rparr>)"
    by (rule Cons.IH [OF l])
  also have "\<dots> = (w, c\<lparr>body := body c @ concat (map (Buffer_toString rt) (x # xs)),
               socket_destroyed :=
                 socket_destroyed c \<or>
                 (x # xs \<noteq> [] \<and>
                  1000000 < length (body c @ concat (map (Buffer_toString rt) (x # xs))))\<rparr>)"
    by (cases xs) (auto simp add: on_data_def Let_def add.assoc)
  finally show ?case .
qed

text \<open>On a destroyed socket nothing is written any more, whatever happens.\<close>

lemma step_destroyed:
  assumes "socket_destroyed (snd s)"
  shows "socket_destroyed (snd (step rt s ev)) \<and> sent (snd (step rt s ev)) = sent (snd s)"
proof (cases s)
  case (Pair w c)
  then show ?thesis
    using assms
    by (cases ev)
      (auto simp add: on_data_def res_calls_def Let_def split: option.splits prod.splits)
qed

lemma run_destroyed:
  assumes "socket_destroyed (snd s)"
  shows "socket_destroyed (snd (run rt s evs)) \<and> sent (snd (run rt s evs)) = sent (snd s)"
  using assms
proof (induction evs arbitrary: s)
  case Nil
  then show ?case by simp
next
  case (Cons ev evs)
  from step_destroyed [OF Cons.prems, of rt ev] Cons.IH [of "step rt s ev"]
  show ?case by simp
qed

text \<open>A POST whose text stays within the limit: the client receives what the end listener writes.\<close>

lemma post_reply:
  assumes "length (concat (map (Buffer_toString rt) chunks)) \<le> 1000000"
  shows "sent (snd (run rt (w, request_listener rt (lit ''POST'') url) (map Data chunks @ [EndOfBody]))) =
         fst (snd (on_end rt w (concat (map (Buffer_toString rt) chunks))))"
proof -
  let ?c = "request_listener rt (lit ''POST'') url"
  have l: "data_end_listeners ?c"
    by (simp add: post_listener new_conn_def)
  show ?thesis
    unfolding run_append run_data [OF l]
    using assms
    by (simp add: post_listener new_conn_def res_calls_def split: prod.splits)
qed

text \<open>A POST whose text grows beyond the limit: the socket is destroyed and nothing is sent.\<close>

lemma post_oversized:
  assumes "1000000 < length (concat (map (Buffer_toString rt) chunks))"
  shows "socket_destroyed (snd (run rt (w, request_listener rt (lit ''POST'') url) (map Data chunks)))"
    and "sent (snd (run rt (w, request_listener rt (lit ''POST'') url) (map Data chunks @ evs))) = []"
proof -
  let ?c = "request_listener rt (lit ''POST'') url"
  have l: "data_end_listeners ?c" and b: "body ?c = []" and s: "sent ?c = []"
    by (simp_all add: post_listener new_conn_def)
  note r = run_data [OF l, of rt w chunks]
  show d: "socket_destroyed (snd (run rt (w, ?c) (map Data chunks)))"
    unfolding r using b assms by auto
  from run_destroyed [OF d, of rt evs]
  have "sent (snd (run rt (w, ?c) (map Data chunks @ evs))) =
        sent (snd (run rt (w, ?c) (map Data chunks)))"
    by (simp add: run_append)
  also have "\<dots> = []"
    unfolding r using s by simp
  finally show "sent (snd (run rt (w, ?c) (map Data chunks @ evs))) = []" .
qed

section \<open>The sample runtime on the sample requests\<close>

text \<open>The decoder on ASCII bytes and on the letter U+00E9.\<close>

lemma utf8_init_needed [simp]: "bytes_needed utf8_init = 0"
  by (simp add: utf8_init_def)

lemma ascii_seven_bits: "\<not> digit7 c \<Longrightarrow> (of_char c :: nat) < 128"
  by (cases c) simp

lemma utf8_run_ascii:
  assumes "unat b \<le> 0x7F"
  shows "utf8_run utf8_init (b # bs) = unat b # utf8_run utf8_init bs"
  using assms by (simp add: utf8_step_def utf8_lead_def)

lemma utf8_run_ascii_then:
  assumes "\<forall>c \<in> set s. \<not> digit7 c"
  shows "utf8_run utf8_init (ascii_bytes s @ bs) = map of_char s @ utf8_run utf8_init bs"
  using assms
proof (induction s)
  case Nil
  then show ?case by (simp add: ascii_bytes_def)
next
  case (Cons c s)
  have "unat (of_char c :: 8 word) \<le> 0x7F"
    using ascii_seven_bits [of c] Cons.prems by (simp add: unat_of_char8)
  then show ?case
    using Cons by (simp add: ascii_bytes_def utf8_run_ascii unat_of_char8 del: utf8_run.simps(2))
qed

lemma utf8_decode_ascii_bytes:
  assumes "\<forall>c \<in> set s. \<not> digit7 c"
  shows "utf8_decode (ascii_bytes s) = lit s"
proof -
  have "utf8_run utf8_init (map of_char s) = map of_char s"
    using assms
  proof (induction s)
    case Nil
    then show ?case by simp
  next
    case (Cons c s)
    have "unat (of_char c :: 8 word) \<le> 0x7F"
      using ascii_seven_bits [of c] Cons.prems by (simp add: unat_of_char8)
    then show ?case
      using Cons by (simp add: utf8_run_ascii unat_of_char8 del: utf8_run.simps(2))
  qed
  moreover have "concat (map utf16_units (map of_char s)) = lit s"
  proof -
    have "utf16_units (of_char c) = [of_char c]" for c
    proof -
      have "(of_char c :: nat) < 0x10000"
        by (rule less_trans [OF of_char_less_256]) simp
      then show ?thesis
        by (simp add: utf16_units_def of_nat_of_char)
    qed
    then show ?thesis
      by (induction s) (simp_all add: lit_def)
  qed
  ultimately show ?thesis
    by (simp add: utf8_decode_def ascii_bytes_def)
qed

lemma utf8_run_ascii_a: "utf8_run utf8_init (0x61 # bs) = 0x61 # utf8_run utf8_init bs"
  by (simp add: utf8_step_def utf8_lead_def utf8_init_def)

lemma utf8_run_e_acute: "utf8_run utf8_init (0xC3 # 0xA9 # bs) = 0xE9 # utf8_run utf8_init bs"
  by (simp add: utf8_step_def utf8_lead_def utf8_init_def)

lemma utf8_decode_ascii_body: "utf8_decode (replicate n 0x61) = replicate n 0x61"
proof -
  have "utf8_run utf8_init (replicate n 0x61) = replicate n 0x61"
    by (induction n) (simp_all add: utf8_run_ascii_a del: utf8_run.simps(2))
  then show ?thesis
    by (simp add: utf8_decode_def utf16_units_def)
qed

lemma utf8_decode_two_byte_body:
  "utf8_decode (concat (replicate n [0xC3, 0xA9])) = replicate n 0xE9"
proof -
  have "utf8_run utf8_init (concat (replicate n [0xC3, 0xA9])) = replicate n 0xE9"
    by (induction n) (simp_all add: utf8_run_e_acute del: utf8_run.simps(2))
  then show ?thesis
    by (simp add: utf8_decode_def utf16_units_def)
qed

lemma concat_replicate_replicate: "concat (replicate m (replicate n x)) = replicate (m * n) x"
  by (induction m) (simp_all add: replicate_add)

lemma length_concat_replicate: "length (concat (replicate m xs)) = m * length xs"
  by (induction m) simp_all

text \<open>The text each sample body decodes to.\<close>

lemma brace_text:
  "concat (map (Buffer_toString sample_runtime) brace_chunks) = lit ''{''"
  by (simp add: brace_chunks_def sample_runtime_def utf8_decode_ascii_bytes)

lemma unknown_text:
  "concat (map (Buffer_toString sample_runtime) unknown_chunks) =
   lit ''{\"method\":\"unknown-thing\",\"id\":5}''"
  by (simp add: unknown_chunks_def sample_runtime_def utf8_decode_ascii_bytes lit_append)

lemma empty_name_text:
  "concat (map (Buffer_toString sample_runtime) empty_name_chunks) =
   lit ''{\"method\":\"tools/call\",\"id\":0,\"params\":{\"name\":\"\"}}''"
  by (simp add: empty_name_chunks_def sample_runtime_def utf8_decode_ascii_bytes lit_append)

lemma huge_id_text:
  "concat (map (Buffer_toString sample_runtime) huge_id_chunks) =
   lit ''{\"jsonrpc\":\"2.0\",\"method\":\"ping\",\"id\":1e400}''"
  by (simp add: huge_id_chunks_def sample_runtime_def utf8_decode_ascii_bytes)

lemma ascii_chunks_text:
  "concat (map (Buffer_toString sample_runtime) ascii_chunks) = replicate 1048576 0x61"
  by (simp add: ascii_chunks_def sample_runtime_def utf8_decode_ascii_body
      concat_replicate_replicate)

lemma two_byte_chunks_bytes: "sum_list (map length two_byte_chunks) = 1000002"
  by (simp add: two_byte_chunks_def length_concat_replicate sum_list_replicate)

lemma two_byte_chunks_text:
  "concat (map (Buffer_toString sample_runtime) two_byte_chunks) = replicate 500001 0xE9"
proof -
  have "concat (map (Buffer_toString sample_runtime) two_byte_chunks) =
        replicate (15 * 32768) 0xE9 @ replicate 8481 0xE9"
    by (simp add: two_byte_chunks_def sample_runtime_def utf8_decode_two_byte_body
        concat_replicate_replicate)
  also have "\<dots> = replicate 500001 0xE9"
    by (simp add: replicate_add [symmetric])
  finally show ?thesis .
qed

lemma padded_unknown_chunks_text:
  "concat (map (Buffer_toString sample_runtime) padded_unknown_chunks) = padded_unknown_text"
  by (simp add: padded_unknown_chunks_def padded_unknown_text_def sample_runtime_def
      utf8_decode_ascii_bytes utf8_decode_ascii_body concat_replicate_replicate)

lemma padded_empty_name_chunks_text:
  "concat (map (Buffer_toString sample_runtime) padded_empty_name_chunks) = padded_empty_name_text"
  by (simp add: padded_empty_name_chunks_def padded_empty_name_text_def sample_runtime_def
      utf8_decode_ascii_bytes utf8_decode_ascii_body concat_replicate_replicate)

text \<open>The sample parser away from its table.\<close>

lemma length_padded [simp]:
  "length padded_unknown_text = 1000042" "length padded_empty_name_text = 1000060"
  by (simp_all add: padded_unknown_text_def padded_empty_name_text_def)

lemma sample_parse_short:
  assumes "length t < 1000000"
  shows "sample_parse t = map_of sample_table t"
proof -
  have "t \<noteq> padded_unknown_text" "t \<noteq> padded_empty_name_text"
    using assms by auto
  then show ?thesis by (simp add: sample_parse_def)
qed

lemma sample_small:
  "length s < 1000000 \<Longrightarrow> sample_parse (lit s) = map_of sample_table (lit s)"
  by (simp add: sample_parse_short)

lemma sample_table_long:
  assumes "200 < length b"
  shows "map_of sample_table b = None"
proof -
  have "b \<noteq> lit s" if "length s \<le> 200" for s
    using assms that by auto
  then show ?thesis
    by (simp add: sample_table_def)
qed

lemma sample_parse_other_length:
  assumes "200 < length b" "length b \<noteq> 1000042" "length b \<noteq> 1000060"
  shows "sample_parse b = None"
proof -
  have "b \<noteq> padded_unknown_text" "b \<noteq> padded_empty_name_text"
    using assms by auto
  then show ?thesis
    by (simp add: sample_parse_def sample_table_long [OF assms(1)])
qed

lemma sample_stringify: "depth v \<le> 8 \<Longrightarrow> JSON_stringify sample_runtime v = Inr (sample_text v)"
  by (simp add: shallow_stringify) (simp add: sample_runtime_def)

section \<open>Parse errors\<close>

text \<open>
  A body of 1048576 letters a is not JSON. It is longer than the limit: the socket is
  destroyed while it streams in, and the client receives nothing, no parse error either.
\<close>

theorem parse_error_oversized_counterexample:
  "JSON_parse sample_runtime (concat (map (Buffer_toString sample_runtime) ascii_chunks)) = None \<and>
   sent (snd (run sample_runtime
               (quiet_world, request_listener sample_runtime (lit ''POST'') (lit ''/''))
               (map Data ascii_chunks @ [EndOfBody]))) = []"
proof -
  have "JSON_parse sample_runtime (replicate 1048576 0x61) = None"
    by (simp add: sample_runtime_def sample_parse_other_length)
  moreover have "1000000 < length (concat (map (Buffer_toString sample_runtime) ascii_chunks))"
    by (simp add: ascii_chunks_text)
  ultimately show ?thesis
    using post_oversized(2) [of sample_runtime ascii_chunks quiet_world "lit ''/''" "[EndOfBody]"]
    by (simp add: ascii_chunks_text)
qed

text \<open>
  C3. On a POST whose accumulated text stays within 1000000 code units and on which
  \<^verbatim>\<open>JSON.parse\<close> throws, the client receives status 400 with the JSON content type and
  the error envelope of code -32700, message "Parse error" and id \<^verbatim>\<open>null\<close>, and
  nothing else.
\<close>

theorem parse_error_reply:
  assumes "length (concat (map (Buffer_toString rt) chunks)) \<le> 1000000"
    and "JSON_parse rt (concat (map (Buffer_toString rt) chunks)) = None"
  shows "sent (snd (run rt (w, request_listener rt (lit ''POST'') url)
                      (map Data chunks @ [EndOfBody]))) =
    [WriteHead 400 [(lit ''Content-Type'', lit ''application/json'')],
     End (Some (JSON_text rt
       (JObj [(lit ''jsonrpc'', JStr (lit ''2.0'')),
              (lit ''error'', JObj [(lit ''code'', JNum (Finite (- 32700))),
                                    (lit ''message'', JStr (lit ''Parse error''))]),
              (lit ''id'', JNull)])))]"
  unfolding post_reply [OF assms(1)] on_end_unparsed [OF assms(2)]
  by (simp add: content_type_json_def)

text \<open>
  The body \<^verbatim>\<open>{\<close> is not JSON.
\<close>

theorem parse_error_reply_witness:
  "length (concat (map (Buffer_toString sample_runtime) brace_chunks)) \<le> 1000000 \<and>
   JSON_parse sample_runtime (concat (map (Buffer_toString sample_runtime) brace_chunks)) = None \<and>
   sent (snd (run sample_runtime
               (quiet_world, request_listener sample_runtime (lit ''POST'') (lit ''/''))
               (map Data brace_chunks @ [EndOfBody]))) =
    [WriteHead 400 [(lit ''Content-Type'', lit ''application/json'')],
     End (Some (lit ''{\"jsonrpc\":\"2.0\",\"error\":{\"code\":-32700,\"message\":\"Parse error\"},\"id\":null}''))]"
proof -
  have 1: "length (concat (map (Buffer_toString sample_runtime) brace_chunks)) \<le> 1000000"
    by (simp add: brace_text)
  have 2: "JSON_parse sample_runtime (concat (map (Buffer_toString sample_runtime) brace_chunks)) = None"
    by (simp add: brace_text) (simp add: sample_runtime_def sample_small sample_table_def)
  show ?thesis
    using 1 2 parse_error_reply [OF 1 2, of quiet_world "lit ''/''"]
    by (simp add: sample_runtime_def sample_text_def)
qed

section \<open>Unknown methods\<close>

text \<open>
  The request \<^verbatim>\<open>{"method":"unknown-thing","id":5,"pad":"a...a"}\<close> with a million
  letters a parses and names no known method. It is longer than the limit: the socket is
  destroyed and the client receives nothing.
\<close>

theorem method_not_found_oversized_counterexample:
  "JSON_parse sample_runtime (concat (map (Buffer_toString sample_runtime) padded_unknown_chunks)) =
     Some padded_unknown_request \<and>
   getprop padded_unknown_request p_method = Inr (JStr (lit ''unknown-thing'')) \<and>
   sent (snd (run sample_runtime
               (quiet_world, request_listener sample_runtime (lit ''POST'') (lit ''/''))
               (map Data padded_unknown_chunks @ [EndOfBody]))) = []"
proof -
  have "JSON_parse sample_runtime padded_unknown_text = Some padded_unknown_request"
    by (simp add: sample_runtime_def sample_parse_def)
  moreover have "getprop padded_unknown_request p_method = Inr (JStr (lit ''unknown-thing''))"
    by (simp add: padded_unknown_request_def)
  moreover have "1000000 < length (concat (map (Buffer_toString sample_runtime) padded_unknown_chunks))"
    by (simp add: padded_unknown_chunks_text)
  ultimately show ?thesis
    using post_oversized(2) [of sample_runtime padded_unknown_chunks quiet_world "lit ''/''" "[EndOfBody]"]
    by (simp add: padded_unknown_chunks_text)
qed

text \<open>
  C5. On a POST whose accumulated text stays within 1000000 code units and parses, with
  \<open>method\<close>, \<open>i\<close> and \<open>pv\<close> the values read from \<^verbatim>\<open>parsed.method\<close>, \<^verbatim>\<open>parsed.id\<close> and
  \<^verbatim>\<open>parsed.params\<close>: when \<open>method\<close> is none of the fifteen known names and
  \<^verbatim>\<open>JSON.stringify\<close> returns on the log line and on the error envelope, the client
  receives status 404 with the envelope of code -32601, message "Method not found", and
  the request's id, and nothing else. A read that throws (the body \<^verbatim>\<open>null\<close>) and a
  serialisation that overflows the stack are left aside here.
\<close>

theorem method_not_found:
  assumes "length (concat (map (Buffer_toString rt) chunks)) \<le> 1000000"
    and "JSON_parse rt (concat (map (Buffer_toString rt) chunks)) = Some parsed"
    and "getprop parsed p_method = Inr method"
    and "getprop parsed p_id = Inr i"
    and "getprop parsed p_params = Inr pv"
    and "method \<notin> JStr ` lit ` {''listTools'', ''tools/list'', ''listResources'', ''resources/list'',
            ''listPrompts'', ''prompts/list'', ''tools/call'', ''callTool'',
            ''initialize'', ''init'', ''handshake'', ''ping'', ''serverInfo'', ''getMetadata'',
            ''status''}"
    and "JSON_stringify rt
           (JObj [(lit ''method'', method), (lit ''id'', if nullish i then JNull else i),
                  (lit ''params'', pv)]) = Inr logLine"
    and "JSON_stringify rt
           (JObj [(lit ''jsonrpc'', JStr (lit ''2.0'')),
                  (lit ''error'', JObj [(lit ''code'', JNum (Finite (- 32601))),
                                        (lit ''message'', JStr (lit ''Method not found''))]),
                  (lit ''id'', if nullish i then JNull else i)]) = Inr reply"
  shows "sent (snd (run rt (w, request_listener rt (lit ''POST'') url)
                      (map Data chunks @ [EndOfBody]))) =
     [WriteHead 404 [(lit ''Content-Type'', lit ''application/json'')], End (Some reply)]"
proof -
  from on_end_parsed [OF assms(2,3,4,5), of w] assms(7)
  obtain w1 where d: "on_end rt w (concat (map (Buffer_toString rt) chunks)) =
      dispatch rt w1 parsed method (js_coalesce i JNull)"
    by (auto simp add: js_coalesce_def)
  show ?thesis
    unfolding post_reply [OF assms(1)] d dispatch_default [OF assms(6)]
    using assms(8)
    by (simp add: snd_sendError makeJsonRpcError_def js_coalesce_def content_type_json_def)
qed

text \<open>
  The request \<^verbatim>\<open>{"method":"unknown-thing","id":5}\<close>, arriving in two chunks.
\<close>

theorem method_not_found_witness:
  "length (concat (map (Buffer_toString sample_runtime) unknown_chunks)) \<le> 1000000 \<and>
   JSON_parse sample_runtime (concat (map (Buffer_toString sample_runtime) unknown_chunks)) =
     Some unknown_request \<and>
   getprop unknown_request p_method = Inr (JStr (lit ''unknown-thing'')) \<and>
   sent (snd (run sample_runtime
               (quiet_world, request_listener sample_runtime (lit ''POST'') (lit ''/''))
               (map Data unknown_chunks @ [EndOfBody]))) =
     [WriteHead 404 [(lit ''Content-Type'', lit ''application/json'')],
      End (Some (lit ''{\"jsonrpc\":\"2.0\",\"error\":{\"code\":-32601,\"message\":\"Method not found\"},\"id\":5}''))]"
proof -
  have 1: "length (concat (map (Buffer_toString sample_runtime) unknown_chunks)) \<le> 1000000"
    by (simp add: unknown_text)
  have 2: "JSON_parse sample_runtime (concat (map (Buffer_toString sample_runtime) unknown_chunks)) =
     Some unknown_request"
    by (simp add: unknown_text) (simp add: sample_runtime_def sample_small sample_table_def)
  have 3: "getprop unknown_request p_method = Inr (JStr (lit ''unknown-thing''))"
    and 4: "getprop unknown_request p_id = Inr (JNum (Finite 5))"
    and 5: "getprop unknown_request p_params = Inr JUndefined"
    by (simp_all add: unknown_request_def)
  have 6: "JStr (lit ''unknown-thing'') \<notin> JStr ` lit ` {''listTools'', ''tools/list'', ''listResources'', ''resources/list'',
            ''listPrompts'', ''prompts/list'', ''tools/call'', ''callTool'',
            ''initialize'', ''init'', ''handshake'', ''ping'', ''serverInfo'', ''getMetadata'',
            ''status''}"
    by simp
  have 7: "JSON_stringify sample_runtime
           (JObj [(lit ''method'', JStr (lit ''unknown-thing'')),
                  (lit ''id'', if nullish (JNum (Finite 5)) then JNull else JNum (Finite 5)),
                  (lit ''params'', JUndefined)]) = Inr []"
    by (simp add: sample_stringify) (simp add: sample_text_def)
  have 8: "JSON_stringify sample_runtime
           (JObj [(lit ''jsonrpc'', JStr (lit ''2.0'')),
                  (lit ''error'', JObj [(lit ''code'', JNum (Finite (- 32601))),
                                        (lit ''message'', JStr (lit ''Method not found''))]),
                  (lit ''id'', if nullish (JNum (Finite 5)) then JNull else JNum (Finite 5))]) =
           Inr (lit ''{\"jsonrpc\":\"2.0\",\"error\":{\"code\":-32601,\"message\":\"Method not found\"},\"id\":5}'')"
    by (simp add: sample_stringify) (simp add: sample_text_def)
  show ?thesis
    using 1 2 3 method_not_found [OF 1 2 3 4 5 6 7 8, of quiet_world "lit ''/''"]
    by simp
qed



section \<open>The id of the reply\<close>

text \<open>
  The request \<^verbatim>\<open>{"jsonrpc":"2.0","method":"ping","id":1e400}\<close>: \<^verbatim>\<open>JSON.parse\<close> reads
  the id as \<^verbatim>\<open>Infinity\<close>, \<^verbatim>\<open>JSON.stringify\<close> writes \<^verbatim>\<open>Infinity\<close> as \<^verbatim>\<open>null\<close>, and the
  client receives a reply whose id is \<^verbatim>\<open>null\<close>.
\<close>

theorem reply_id_counterexample:
  "JSON_parse sample_runtime (concat (map (Buffer_toString sample_runtime) huge_id_chunks)) =
     Some huge_id_request \<and>
   getprop huge_id_request p_id = Inr (JNum PosInfinity) \<and>
   sent (snd (run sample_runtime
               (quiet_world, request_listener sample_runtime (lit ''POST'') (lit ''/''))
               (map Data huge_id_chunks @ [EndOfBody]))) =
     [WriteHead 200 [(lit ''Content-Type'', lit ''application/json'')],
      End (Some (lit ''{\"jsonrpc\":\"2.0\",\"result\":{},\"id\":null}''))] \<and>
   JSON_parse sample_runtime (lit ''{\"jsonrpc\":\"2.0\",\"result\":{},\"id\":null}'') =
     Some huge_id_reply \<and>
   getprop huge_id_reply p_id = Inr JNull"
proof -
  have 1: "JSON_parse sample_runtime (concat (map (Buffer_toString sample_runtime) huge_id_chunks)) =
     Some huge_id_request"
    by (simp add: huge_id_text) (simp add: sample_runtime_def sample_small sample_table_def)
  have e: "fst (snd (on_end sample_runtime quiet_world
             (lit ''{\"jsonrpc\":\"2.0\",\"method\":\"ping\",\"id\":1e400}''))) =
      [WriteHead 200 content_type_json,
       End (Some (lit ''{\"jsonrpc\":\"2.0\",\"result\":{},\"id\":null}''))]"
    by (simp add: on_end_def sample_runtime_def sample_small sample_table_def
        huge_id_request_def shallow_stringify js_coalesce_def dispatch_def Let_def
        sendResult_def makeJsonRpcResult_def sample_text_def)
  have 2: "sent (snd (run sample_runtime
               (quiet_world, request_listener sample_runtime (lit ''POST'') (lit ''/''))
               (map Data huge_id_chunks @ [EndOfBody]))) =
     [WriteHead 200 [(lit ''Content-Type'', lit ''application/json'')],
      End (Some (lit ''{\"jsonrpc\":\"2.0\",\"result\":{},\"id\":null}''))]"
    by (subst post_reply) (simp_all add: huge_id_text e content_type_json_def)
  have 3: "JSON_parse sample_runtime (lit ''{\"jsonrpc\":\"2.0\",\"result\":{},\"id\":null}'') =
     Some huge_id_reply"
    by (simp add: sample_runtime_def sample_small sample_table_def)
  show ?thesis
    using 1 2 3 by (simp add: huge_id_request_def huge_id_reply_def)
qed

text \<open>
  The text the server parses is the concatenation of the chunks, each decoded on its own:
  a character cut in two by a chunk boundary becomes two replacement characters, in an
  id as anywhere else.
\<close>

lemma split_character_example:
  "concat (map utf8_decode [ascii_bytes ''{\"id\":\"'' @ [0xC3], 0xA9 # ascii_bytes ''\"}'']) =
     lit ''{\"id\":\"'' @ [0xFFFD, 0xFFFD] @ lit ''\"}''"
  "utf8_decode (ascii_bytes ''{\"id\":\"'' @ [0xC3] @ 0xA9 # ascii_bytes ''\"}'') =
     lit ''{\"id\":\"'' @ [0xE9] @ lit ''\"}''"
proof -
  have u: "concat (map utf16_units (map of_char s)) = lit s" for s
  proof -
    have "utf16_units (of_char c) = [of_char c]" for c
    proof -
      have "(of_char c :: nat) < 0x10000"
        by (rule less_trans [OF of_char_less_256]) simp
      then show ?thesis
        by (simp add: utf16_units_def of_nat_of_char)
    qed
    then show ?thesis
      by (induction s) (simp_all add: lit_def)
  qed
  have a: "utf8_run utf8_init [0xC3] = [0xFFFD]"
    and b: "utf8_run utf8_init (0xA9 # bs) = 0xFFFD # utf8_run utf8_init bs"
    and c: "utf8_run utf8_init (0xC3 # 0xA9 # bs) = 0xE9 # utf8_run utf8_init bs" for bs
    by (simp_all add: utf8_step_def utf8_lead_def utf8_init_def)
  have n: "utf8_run utf8_init (ascii_bytes s) = map of_char s" if "\<forall>c \<in> set s. \<not> digit7 c" for s
    using utf8_run_ascii_then [OF that, of "[]"] by simp
  show "concat (map utf8_decode [ascii_bytes ''{\"id\":\"'' @ [0xC3], 0xA9 # ascii_bytes ''\"}'']) =
     lit ''{\"id\":\"'' @ [0xFFFD, 0xFFFD] @ lit ''\"}''"
    by (simp add: utf8_decode_def utf8_run_ascii_then a b n u utf16_units_def lit_def
        del: utf8_run.simps)
  show "utf8_decode (ascii_bytes ''{\"id\":\"'' @ [0xC3] @ 0xA9 # ascii_bytes ''\"}'') =
     lit ''{\"id\":\"'' @ [0xE9] @ lit ''\"}''"
    by (simp add: utf8_decode_def utf8_run_ascii_then c n u utf16_units_def lit_def
        del: utf8_run.simps)
qed

text \<open>
  C2. On a POST whose accumulated text parses, whenever anything reaches the client it is
  one head and one end around one envelope, a result or an error, and that envelope is
  what \<^verbatim>\<open>JSON.stringify\<close> returns on an object whose id is the request's: the value of
  the property \<^verbatim>\<open>id\<close> of the parsed object whatever it is (a number, 0 included, a
  string, the empty one included, \<^verbatim>\<open>null\<close>, or anything else), and \<^verbatim>\<open>null\<close> when the
  property is absent or the parsed value is not an object.
\<close>

theorem reply_id_is_parsed_id:
  assumes "JSON_parse rt (concat (map (Buffer_toString rt) chunks)) = Some parsed"
    and "sent (snd (run rt (w, request_listener rt (lit ''POST'') url)
                      (map Data chunks @ [EndOfBody]))) \<noteq> []"
  shows "\<exists>status key payload reply. (key = lit ''result'' \<or> key = lit ''error'') \<and>
     sent (snd (run rt (w, request_listener rt (lit ''POST'') url)
                  (map Data chunks @ [EndOfBody]))) =
       [WriteHead status [(lit ''Content-Type'', lit ''application/json'')], End (Some reply)] \<and>
     JSON_stringify rt
       (JObj [(lit ''jsonrpc'', JStr (lit ''2.0'')), (key, payload),
              (lit ''id'',
               case parsed of
                 JObj kvs \<Rightarrow>
                   (case map_of kvs (lit ''id'') of
                      None \<Rightarrow> JNull
                    | Some v \<Rightarrow> if v = JUndefined then JNull else v)
               | _ \<Rightarrow> JNull)]) = Inr reply"
proof -
  have s: "length (concat (map (Buffer_toString rt) chunks)) \<le> 1000000"
  proof (rule ccontr)
    assume "\<not> length (concat (map (Buffer_toString rt) chunks)) \<le> 1000000"
    then have "1000000 < length (concat (map (Buffer_toString rt) chunks))" by simp
    from post_oversized(2) [OF this, of w url "[EndOfBody]"] assms(2)
    show False by simp
  qed
  from assms(2) have "fst (snd (on_end rt w (concat (map (Buffer_toString rt) chunks)))) \<noteq> []"
    unfolding post_reply [OF s] .
  from on_end_shape [OF assms(1) this]
  show ?thesis
    unfolding post_reply [OF s] by (simp add: content_type_json_def)
qed

text \<open>
  The request \<^verbatim>\<open>{"method":"tools/call","id":0,"params":{"name":""}}\<close>: the id 0 comes
  back.
\<close>

theorem reply_id_is_parsed_id_witness:
  "JSON_parse sample_runtime (concat (map (Buffer_toString sample_runtime) empty_name_chunks)) =
     Some empty_name_request \<and>
   sent (snd (run sample_runtime
               (quiet_world, request_listener sample_runtime (lit ''POST'') (lit ''/''))
               (map Data empty_name_chunks @ [EndOfBody]))) =
     [WriteHead 400 [(lit ''Content-Type'', lit ''application/json'')],
      End (Some (lit ''{\"jsonrpc\":\"2.0\",\"error\":{\"code\":-32602,\"message\":\"Missing tool name\"},\"id\":0}''))] \<and>
   (\<exists>status key payload reply. (key = lit ''result'' \<or> key = lit ''error'') \<and>
     sent (snd (run sample_runtime
               (quiet_world, request_listener sample_runtime (lit ''POST'') (lit ''/''))
               (map Data empty_name_chunks @ [EndOfBody]))) =
       [WriteHead status [(lit ''Content-Type'', lit ''application/json'')], End (Some reply)] \<and>
     JSON_stringify sample_runtime
       (JObj [(lit ''jsonrpc'', JStr (lit ''2.0'')), (key, payload),
              (lit ''id'', JNum (Finite 0))]) = Inr reply)"
proof -
  have 1: "JSON_parse sample_runtime (concat (map (Buffer_toString sample_runtime) empty_name_chunks)) =
     Some empty_name_request"
    by (simp add: empty_name_text) (simp add: sample_runtime_def sample_small sample_table_def)
  have e: "fst (snd (on_end sample_runtime quiet_world
             (lit ''{\"method\":\"tools/call\",\"id\":0,\"params\":{\"name\":\"\"}}''))) =
      [WriteHead 400 content_type_json,
       End (Some (lit ''{\"jsonrpc\":\"2.0\",\"error\":{\"code\":-32602,\"message\":\"Missing tool name\"},\"id\":0}''))]"
    by (simp add: on_end_def sample_runtime_def sample_small sample_table_def
        empty_name_request_def shallow_stringify js_coalesce_def dispatch_def call_tool_def
        or_tool_fallback_def bindE_def js_or_def opt_chain_def Let_def sendError_def
        makeJsonRpcError_def sample_text_def)
  have 2: "sent (snd (run sample_runtime
               (quiet_world, request_listener sample_runtime (lit ''POST'') (lit ''/''))
               (map Data empty_name_chunks @ [EndOfBody]))) =
     [WriteHead 400 [(lit ''Content-Type'', lit ''application/json'')],
      End (Some (lit ''{\"jsonrpc\":\"2.0\",\"error\":{\"code\":-32602,\"message\":\"Missing tool name\"},\"id\":0}''))]"
    by (subst post_reply) (simp_all add: empty_name_text e content_type_json_def)
  have 3: "sent (snd (run sample_runtime
               (quiet_world, request_listener sample_runtime (lit ''POST'') (lit ''/''))
               (map Data empty_name_chunks @ [EndOfBody]))) \<noteq> []"
    unfolding 2 by simp
  show ?thesis
    using 1 2 reply_id_is_parsed_id [OF 1 3]
    by (simp add: empty_name_request_def)
qed

text \<open>
  What the client reads back: when \<^verbatim>\<open>JSON.parse\<close> of the reply gives back the id that
  \<^verbatim>\<open>JSON.stringify\<close> was given in the envelope, as it does for a string, for \<^verbatim>\<open>null\<close>
  and for a number that is not \<^verbatim>\<open>-0\<close>, the id the client finds in the reply is the id the
  server found in the request.
\<close>

lemma reply_id_read_back:
  assumes "JSON_parse rt (concat (map (Buffer_toString rt) chunks)) = Some parsed"
    and "sent (snd (run rt (w, request_listener rt (lit ''POST'') url)
                      (map Data chunks @ [EndOfBody]))) = calls"
    and "End (Some reply) \<in> set calls"
    and "ident = (case parsed of
                    JObj kvs \<Rightarrow>
                      (case map_of kvs (lit ''id'') of
                         None \<Rightarrow> JNull
                       | Some v \<Rightarrow> if v = JUndefined then JNull else v)
                  | _ \<Rightarrow> JNull)"
    and "\<And>key payload.
           JSON_stringify rt
             (JObj [(lit ''jsonrpc'', JStr (lit ''2.0'')), (key, payload), (lit ''id'', ident)]) =
           Inr reply \<Longrightarrow>
           \<exists>answer. JSON_parse rt reply = Some answer \<and> getprop answer p_id = Inr ident"
  shows "\<exists>answer. JSON_parse rt reply = Some answer \<and> getprop answer p_id = Inr ident"
proof -
  have s: "length (concat (map (Buffer_toString rt) chunks)) \<le> 1000000"
  proof (rule ccontr)
    assume "\<not> length (concat (map (Buffer_toString rt) chunks)) \<le> 1000000"
    then have "1000000 < length (concat (map (Buffer_toString rt) chunks))" by simp
    from post_oversized(2) [OF this, of w url "[EndOfBody]"] assms(2,3)
    show False by auto
  qed
  from assms(2,3)
  have c: "fst (snd (on_end rt w (concat (map (Buffer_toString rt) chunks)))) = calls"
    and "calls \<noteq> []"
    unfolding post_reply [OF s] by auto
  then have "fst (snd (on_end rt w (concat (map (Buffer_toString rt) chunks)))) \<noteq> []"
    by simp
  from on_end_shape [OF assms(1) this] c assms(3,4)
  obtain key payload where
    "JSON_stringify rt
       (JObj [(lit ''jsonrpc'', JStr (lit ''2.0'')), (key, payload), (lit ''id'', ident)]) =
     Inr reply"
    by auto
  then show ?thesis by (rule assms(5))
qed

section \<open>Logging and the reply\<close>

text \<open>
  C8. What the listener does on \<^verbatim>\<open>res\<close> (the status, the headers and the body, and the
  exception that leaves it, if any) is the same in any two worlds: it does not depend on
  which appends to the log files fail, nor on what the console and the files hold.
\<close>

theorem logging_noninterference:
  "snd (on_end rt w raw) = snd (on_end rt w' raw)"
  by (simp add: on_end_def dispatch_def call_tool_def snd_sendResult snd_sendError Let_def
      split: option.splits sum.splits prod.splits)

text \<open>
  The echo request, once with every append succeeding and once with every append failing.
\<close>

theorem logging_noninterference_witness:
  "snd (on_end sample_runtime quiet_world
     (lit ''{\"jsonrpc\":\"2.0\",\"method\":\"tools/call\",\"id\":2,\"params\":{\"name\":\"echo\",\"arguments\":{\"message\":\"hi\"}}}'')) =
   snd (on_end sample_runtime failing_world
     (lit ''{\"jsonrpc\":\"2.0\",\"method\":\"tools/call\",\"id\":2,\"params\":{\"name\":\"echo\",\"arguments\":{\"message\":\"hi\"}}}''))"
  by (rule logging_noninterference)

section \<open>The tool call\<close>

text \<open>
  The example of the specification: \<^verbatim>\<open>echo\<close> with the message \<^verbatim>\<open>hi\<close>.
\<close>

lemma echo_example:
  "snd (on_end sample_runtime quiet_world
     (lit ''{\"jsonrpc\":\"2.0\",\"method\":\"tools/call\",\"id\":2,\"params\":{\"name\":\"echo\",\"arguments\":{\"message\":\"hi\"}}}'')) =
   ([WriteHead 200 [(lit ''Content-Type'', lit ''application/json'')],
     End (Some (lit ''{\"jsonrpc\":\"2.0\",\"result\":{\"type\":\"tool_result\",\"value\":{\"output\":\"hi\"}},\"id\":2}''))],
    None)"
  by (simp add: on_end_def sample_runtime_def sample_small sample_table_def echo_request_def
      shallow_stringify js_coalesce_def dispatch_def call_tool_def or_tool_fallback_def
      bindE_def js_or_def opt_chain_def Let_def sendResult_def makeJsonRpcResult_def
      content_type_json_def sample_text_def)

text \<open>
  A name that is truthy, is not \<^verbatim>\<open>echo\<close> and can be converted to a string is answered
  with -32000 and status 404, when the log line and the envelope serialise.
\<close>

lemma unknown_tool_reply:
  assumes "JSON_parse rt raw = Some parsed"
    and "getprop parsed p_method = Inr m"
    and "m = JStr (lit ''tools/call'') \<or> m = JStr (lit ''callTool'')"
    and "getprop parsed p_id = Inr i"
    and "getprop parsed p_params = Inr pv"
    and "JSON_stringify rt
           (JObj [(lit ''method'', m), (lit ''id'', if nullish i then JNull else i),
                  (lit ''params'', pv)]) = Inr logLine"
    and "or_tool_fallback (js_or pv (JObj [])) p_name JNull = Inr name"
    and "truthy name" "name \<noteq> JStr (lit ''echo'')"
    and "template_literal rt name = Inr s"
    and "JSON_stringify rt
           (JObj [(lit ''jsonrpc'', JStr (lit ''2.0'')),
                  (lit ''error'', JObj [(lit ''code'', JNum (Finite (- 32000))),
                                        (lit ''message'', JStr (lit ''Tool not found: '' @ s))]),
                  (lit ''id'', if nullish i then JNull else i)]) = Inr reply"
  shows "snd (on_end rt w raw) = ([WriteHead 404 content_type_json, End (Some reply)], None)"
proof -
  from on_end_parsed [OF assms(1,2,4,5), of w] assms(6)
  obtain w1 where d: "on_end rt w raw = dispatch rt w1 parsed m (js_coalesce i JNull)"
    by (auto simp add: js_coalesce_def)
  have c: "dispatch rt w1 parsed m (js_coalesce i JNull) =
           call_tool rt w1 parsed (js_coalesce i JNull)"
    using assms(3) by (auto simp add: dispatch_def)
  have "\<not> nullish (js_or pv (JObj []))"
    by (cases pv) (simp_all add: js_or_def)
  then obtain args where args: "or_tool_fallback (js_or pv (JObj [])) p_arguments (JObj []) = Inr args"
    using or_tool_fallback_Inr by blast
  show ?thesis
    unfolding d c
    using assms(8,9,11)
    by (simp add: call_tool_def bindE_def Let_def assms(5,7,10) args snd_sendError
        makeJsonRpcError_def js_coalesce_def del: getprop.simps)
qed

text \<open>
  C1. A \<^verbatim>\<open>tools/call\<close> request whose name is the object \<^verbatim>\<open>{"toString":1}\<close>: the name is
  truthy and is not \<^verbatim>\<open>echo\<close>, and building the message \<^verbatim>\<open>Tool not found: ${name}\<close>
  throws a \<^verbatim>\<open>TypeError\<close>; the listener makes no call on \<^verbatim>\<open>res\<close>.
\<close>

theorem unconvertible_tool_name_throws:
  "snd (on_end sample_runtime quiet_world
          (lit ''{\"method\":\"tools/call\",\"id\":7,\"params\":{\"name\":{\"toString\":1}}}'')) =
   ([], Some TypeError)"
  by (simp add: on_end_def sample_runtime_def sample_small sample_table_def object_name_request_def
      shallow_stringify js_coalesce_def template_literal_def
      dispatch_def call_tool_def or_tool_fallback_def bindE_def js_or_def opt_chain_def Let_def)

text \<open>
  The request \<^verbatim>\<open>{"method":"tools/call","id":0,"params":{"name":"","pad":"a...a"}}\<close>
  with a million letters a has an empty name and no \<^verbatim>\<open>tool\<close>. It is longer than the
  limit: the socket is destroyed and the client receives nothing.
\<close>

theorem falsy_tool_name_oversized_counterexample:
  "JSON_parse sample_runtime (concat (map (Buffer_toString sample_runtime) padded_empty_name_chunks)) =
     Some (JObj [(lit ''method'', JStr (lit ''tools/call'')), (lit ''id'', JNum (Finite 0)),
                 (lit ''params'', JObj [(lit ''name'', JStr []),
                                        (lit ''pad'', JStr (replicate 1000000 0x61))])]) \<and>
   sent (snd (run sample_runtime
               (quiet_world, request_listener sample_runtime (lit ''POST'') (lit ''/''))
               (map Data padded_empty_name_chunks @ [EndOfBody]))) = []"
proof -
  have "padded_empty_name_text \<noteq> padded_unknown_text"
  proof
    assume "padded_empty_name_text = padded_unknown_text"
    then have "length padded_empty_name_text = length padded_unknown_text" by simp
    then show False by simp
  qed
  then have "JSON_parse sample_runtime padded_empty_name_text = Some padded_empty_name_request"
    by (simp add: sample_runtime_def sample_parse_def)
  moreover have "1000000 < length (concat (map (Buffer_toString sample_runtime) padded_empty_name_chunks))"
    by (simp add: padded_empty_name_chunks_text)
  ultimately show ?thesis
    using post_oversized(2) [of sample_runtime padded_empty_name_chunks quiet_world "lit ''/''" "[EndOfBody]"]
    by (simp add: padded_empty_name_chunks_text padded_empty_name_request_def)
qed

text \<open>
  C9. On a POST whose accumulated text stays within 1000000 code units and parses to a
  \<^verbatim>\<open>tools/call\<close> or \<^verbatim>\<open>callTool\<close> request whose \<^verbatim>\<open>params.name\<close> is \<^verbatim>\<open>""\<close>, 0 or
  \<^verbatim>\<open>false\<close>, and whose \<^verbatim>\<open>params.tool\<close> is absent, or is not an object, or is an object
  whose \<^verbatim>\<open>name\<close> is absent or falsy, the name counts as missing: when
  \<^verbatim>\<open>JSON.stringify\<close> returns on the log line and on the error envelope, the client
  receives status 400 with the envelope of code -32602, message "Missing tool name", and
  the request's id, and nothing else. A serialisation that overflows the stack is left
  aside here.
\<close>

theorem falsy_tool_name_is_missing:
  assumes "length (concat (map (Buffer_toString rt) chunks)) \<le> 1000000"
    and "JSON_parse rt (concat (map (Buffer_toString rt) chunks)) = Some (JObj kvs)"
    and "map_of kvs (lit ''method'') = Some m"
    and "m = JStr (lit ''tools/call'') \<or> m = JStr (lit ''callTool'')"
    and "map_of kvs (lit ''params'') = Some (JObj ps)"
    and "map_of ps (lit ''name'') = Some n"
    and "n = JStr [] \<or> n = JNum (Finite 0) \<or> n = JBool False"
    and "map_of ps (lit ''tool'') = None \<or>
         (\<exists>t. map_of ps (lit ''tool'') = Some t \<and>
              (case t of
                 JObj ts \<Rightarrow> (case map_of ts (lit ''name'') of None \<Rightarrow> True | Some tn \<Rightarrow> \<not> truthy tn)
               | _ \<Rightarrow> True))"
    and "ident = (case map_of kvs (lit ''id'') of
                    None \<Rightarrow> JNull
                  | Some v \<Rightarrow> if nullish v then JNull else v)"
    and "JSON_stringify rt
           (JObj [(lit ''method'', m), (lit ''id'', ident), (lit ''params'', JObj ps)]) =
         Inr logLine"
    and "JSON_stringify rt
           (JObj [(lit ''jsonrpc'', JStr (lit ''2.0'')),
                  (lit ''error'', JObj [(lit ''code'', JNum (Finite (- 32602))),
                                        (lit ''message'', JStr (lit ''Missing tool name''))]),
                  (lit ''id'', ident)]) = Inr reply"
  shows "sent (snd (run rt (w, request_listener rt (lit ''POST'') url)
                      (map Data chunks @ [EndOfBody]))) =
     [WriteHead 400 [(lit ''Content-Type'', lit ''application/json'')], End (Some reply)]"
proof -
  have gm: "getprop (JObj kvs) p_method = Inr m"
    and gp: "getprop (JObj kvs) p_params = Inr (JObj ps)"
    using assms(3,5) by simp_all
  obtain i where gi: "getprop (JObj kvs) p_id = Inr i" and i: "js_coalesce i JNull = ident"
    using assms(9) by (auto simp add: js_coalesce_def split: option.splits)
  from on_end_parsed [OF assms(2) gm gi gp, of w] assms(10)
  obtain w1 where d: "on_end rt w (concat (map (Buffer_toString rt) chunks)) =
      dispatch rt w1 (JObj kvs) m ident"
    by (auto simp add: i)
  have c: "dispatch rt w1 (JObj kvs) m ident = call_tool rt w1 (JObj kvs) ident"
    using assms(4) by (auto simp add: dispatch_def)
  have n: "getprop (JObj ps) p_name = Inr n" and fn: "\<not> truthy n"
    using assms(6,7) by auto
  obtain t where t: "getprop (JObj ps) p_tool = Inr t"
    and ft: "case t of
               JObj ts \<Rightarrow> (case map_of ts (lit ''name'') of None \<Rightarrow> True | Some tn \<Rightarrow> \<not> truthy tn)
             | _ \<Rightarrow> True"
    using assms(8) by auto
  have "\<exists>b. opt_chain t p_name = Inr b \<and> \<not> truthy b"
    by (rule opt_chain_falsy [where k = "lit ''name''"]) (simp_all add: ft)
  then obtain b where b: "opt_chain t p_name = Inr b" and fb: "\<not> truthy b"
    by blast
  have "\<exists>v. or_tool_fallback (JObj ps) p_name JNull = Inr v \<and> \<not> truthy v"
    by (simp add: or_tool_fallback_def bindE_def n fn t b js_or_def fb del: getprop.simps)
  then obtain v where v: "or_tool_fallback (JObj ps) p_name JNull = Inr v" and fv: "\<not> truthy v"
    by blast
  obtain args where args: "or_tool_fallback (JObj ps) p_arguments (JObj []) = Inr args"
    using or_tool_fallback_Inr [of "JObj ps"] by auto
  have "call_tool rt w1 (JObj kvs) ident =
        sendError rt w1 ident (- 32602) (lit ''Missing tool name'') 400"
    by (simp add: call_tool_def bindE_def js_or_def gp v fv args del: getprop.simps)
  then show ?thesis
    unfolding post_reply [OF assms(1)] d c
    using assms(11)
    by (simp add: snd_sendError makeJsonRpcError_def content_type_json_def)
qed

text \<open>
  The request \<^verbatim>\<open>{"method":"tools/call","id":0,"params":{"name":""}}\<close>, with no
  \<^verbatim>\<open>tool\<close>, arriving in two chunks while every append to the logs fails.
\<close>

theorem falsy_tool_name_is_missing_witness:
  "length (concat (map (Buffer_toString sample_runtime) empty_name_chunks)) \<le> 1000000 \<and>
   JSON_parse sample_runtime (concat (map (Buffer_toString sample_runtime) empty_name_chunks)) =
     Some (JObj [(lit ''method'', JStr (lit ''tools/call'')), (lit ''id'', JNum (Finite 0)),
                 (lit ''params'', JObj [(lit ''name'', JStr [])])]) \<and>
   sent (snd (run sample_runtime
               (failing_world, request_listener sample_runtime (lit ''POST'') (lit ''/mcp''))
               (map Data empty_name_chunks @ [EndOfBody]))) =
     [WriteHead 400 [(lit ''Content-Type'', lit ''application/json'')],
      End (Some (lit ''{\"jsonrpc\":\"2.0\",\"error\":{\"code\":-32602,\"message\":\"Missing tool name\"},\"id\":0}''))]"
proof -
  let ?kvs = "[(lit ''method'', JStr (lit ''tools/call'')), (lit ''id'', JNum (Finite 0)),
               (lit ''params'', JObj [(lit ''name'', JStr [])])]"
  let ?ps = "[(lit ''name'', JStr [])]"
  have 1: "length (concat (map (Buffer_toString sample_runtime) empty_name_chunks)) \<le> 1000000"
    by (simp add: empty_name_text)
  have 2: "JSON_parse sample_runtime (concat (map (Buffer_toString sample_runtime) empty_name_chunks)) =
     Some (JObj ?kvs)"
    by (simp add: empty_name_text)
      (simp add: sample_runtime_def sample_small sample_table_def empty_name_request_def)
  have 3: "map_of ?kvs (lit ''method'') = Some (JStr (lit ''tools/call''))"
    by simp
  have 4: "JStr (lit ''tools/call'') = JStr (lit ''tools/call'') \<or>
           JStr (lit ''tools/call'') = JStr (lit ''callTool'')"
    by simp
  have 5: "map_of ?kvs (lit ''params'') = Some (JObj ?ps)"
    by simp
  have 6: "map_of ?ps (lit ''name'') = Some (JStr [])"
    by simp
  have 7: "JStr [] = JStr [] \<or> JStr [] = JNum (Finite 0) \<or> JStr [] = JBool False"
    by simp
  have 8: "map_of ?ps (lit ''tool'') = None \<or>
         (\<exists>t. map_of ?ps (lit ''tool'') = Some t \<and>
              (case t of
                 JObj ts \<Rightarrow> (case map_of ts (lit ''name'') of None \<Rightarrow> True | Some tn \<Rightarrow> \<not> truthy tn)
               | _ \<Rightarrow> True))"
    by simp
  have 9: "JNum (Finite 0) = (case map_of ?kvs (lit ''id'') of
                    None \<Rightarrow> JNull
                  | Some v \<Rightarrow> if nullish v then JNull else v)"
    by simp
  have 10: "JSON_stringify sample_runtime
           (JObj [(lit ''method'', JStr (lit ''tools/call'')), (lit ''id'', JNum (Finite 0)),
                  (lit ''params'', JObj ?ps)]) = Inr []"
    by (simp add: sample_stringify) (simp add: sample_text_def)
  have 11: "JSON_stringify sample_runtime
           (JObj [(lit ''jsonrpc'', JStr (lit ''2.0'')),
                  (lit ''error'', JObj [(lit ''code'', JNum (Finite (- 32602))),
                                        (lit ''message'', JStr (lit ''Missing tool name''))]),
                  (lit ''id'', JNum (Finite 0))]) =
           Inr (lit ''{\"jsonrpc\":\"2.0\",\"error\":{\"code\":-32602,\"message\":\"Missing tool name\"},\"id\":0}'')"
    by (simp add: sample_stringify) (simp add: sample_text_def)
  show ?thesis
    using 1 2 falsy_tool_name_is_missing [OF 1 2 3 4 5 6 7 8 9 10 11, of failing_world "lit ''/mcp''"]
    by simp
qed

section \<open>Bodies on which the listener throws\<close>

text \<open>
  C6. The body \<^verbatim>\<open>null\<close> is JSON, and \<^verbatim>\<open>parsed.method\<close> throws a \<^verbatim>\<open>TypeError\<close> on it:
  the exception leaves the listener, which makes no call on \<^verbatim>\<open>res\<close> and writes no log.
\<close>

theorem null_body_throws:
  "on_end sample_runtime quiet_world (lit ''null'') = (quiet_world, [], Some TypeError)"
  by (simp add: on_end_def sample_runtime_def sample_small sample_table_def)

text \<open>
  A request nested so deeply that the log line overflows the stack: the
  \<^verbatim>\<open>RangeError\<close> leaves the listener before the dispatch, and no call is made on
  \<^verbatim>\<open>res\<close>.
\<close>

lemma log_line_overflow_throws:
  assumes "JSON_parse rt raw = Some parsed"
    and "getprop parsed p_method = Inr m"
    and "getprop parsed p_id = Inr i"
    and "getprop parsed p_params = Inr pv"
    and "JSON_stringify rt
           (JObj [(lit ''method'', m), (lit ''id'', if nullish i then JNull else i),
                  (lit ''params'', pv)]) = Inl e"
  shows "snd (on_end rt w raw) = ([], Some e)"
  using on_end_parsed [OF assms(1-4), of w] assms(5)
  by (auto simp add: js_coalesce_def)

section \<open>Oversized bodies\<close>

text \<open>
  A body of 1000002 bytes, 500001 times the letter U+00E9 in UTF-8, arrives in sixteen
  chunks and ends. Its text has 500001 code units: the socket is not destroyed, and the
  client receives the parse-error reply.
\<close>

theorem oversized_bytes_counterexample:
  "sum_list (map length two_byte_chunks) = 1000002 \<and>
   \<not> socket_destroyed (snd (run sample_runtime
        (quiet_world, request_listener sample_runtime (lit ''POST'') (lit ''/''))
        (map Data two_byte_chunks @ [EndOfBody]))) \<and>
   sent (snd (run sample_runtime
        (quiet_world, request_listener sample_runtime (lit ''POST'') (lit ''/''))
        (map Data two_byte_chunks @ [EndOfBody]))) =
     [WriteHead 400 [(lit ''Content-Type'', lit ''application/json'')],
      End (Some (lit ''{\"jsonrpc\":\"2.0\",\"error\":{\"code\":-32700,\"message\":\"Parse error\"},\"id\":null}''))]"
proof -
  let ?c = "request_listener sample_runtime (lit ''POST'') (lit ''/'')"
  have l: "data_end_listeners ?c"
    by (simp add: post_listener new_conn_def)
  have p: "JSON_parse sample_runtime (replicate 500001 0xE9) = None"
    by (simp add: sample_runtime_def sample_parse_other_length)
  have e: "on_end sample_runtime quiet_world (replicate 500001 0xE9) =
     (quiet_world, [WriteHead 400 [(lit ''Content-Type'', lit ''application/json'')],
      End (Some (lit ''{\"jsonrpc\":\"2.0\",\"error\":{\"code\":-32700,\"message\":\"Parse error\"},\"id\":null}''))],
      None)"
    unfolding on_end_unparsed [OF p]
    by (simp add: content_type_json_def sample_runtime_def sample_text_def)
  have r: "run sample_runtime (quiet_world, ?c) (map Data two_byte_chunks) =
           (quiet_world, ?c\<lparr>body := replicate 500001 0xE9\<rparr>)"
    unfolding run_data [OF l] two_byte_chunks_text
    by (simp add: post_listener new_conn_def)
  show ?thesis
    unfolding run_append r
    by (simp add: two_byte_chunks_bytes post_listener new_conn_def e res_calls_def)
qed

text \<open>
  C4. On a POST, right after the chunks received so far, the socket is destroyed exactly
  when the accumulated text, the chunks decoded and concatenated, is longer than 1000000
  UTF-16 code units; and once it is, nothing ever reaches the client on this connection,
  whatever happens next (more chunks, the end of the body, ticks, a close): no JSON-RPC
  reply, success or error.
\<close>

theorem oversized_body_destroys_socket:
  "socket_destroyed
     (snd (run rt (w, request_listener rt (lit ''POST'') url) (map Data chunks))) =
     (1000000 < length (concat (map (Buffer_toString rt) chunks))) \<and>
   (1000000 < length (concat (map (Buffer_toString rt) chunks)) \<longrightarrow>
      (\<forall>evs. sent (snd (run rt (w, request_listener rt (lit ''POST'') url)
                              (map Data chunks @ evs))) = []))"
proof -
  let ?c = "request_listener rt (lit ''POST'') url"
  have l: "data_end_listeners ?c" and b: "body ?c = []" and d: "\<not> socket_destroyed ?c"
    by (simp_all add: post_listener new_conn_def)
  have 1: "socket_destroyed (snd (run rt (w, ?c) (map Data chunks))) =
     (1000000 < length (concat (map (Buffer_toString rt) chunks)))"
    unfolding run_data [OF l, of rt w chunks] using b d by auto
  have 2: "sent (snd (run rt (w, ?c) (map Data chunks @ evs))) = []"
    if "1000000 < length (concat (map (Buffer_toString rt) chunks))" for evs
    using post_oversized(2) [OF that] .
  from 1 2 show ?thesis by blast
qed

text \<open>A body of 1048576 letters a, in sixteen chunks, then the end of the body.\<close>

theorem oversized_body_destroys_socket_witness:
  "1000000 < length (concat (map (Buffer_toString sample_runtime) ascii_chunks)) \<and>
   socket_destroyed (snd (run sample_runtime
      (quiet_world, request_listener sample_runtime (lit ''POST'') (lit ''/''))
      (map Data ascii_chunks))) \<and>
   sent (snd (run sample_runtime
      (quiet_world, request_listener sample_runtime (lit ''POST'') (lit ''/''))
      (map Data ascii_chunks @ [EndOfBody]))) = []"
proof -
  have h: "1000000 < length (concat (map (Buffer_toString sample_runtime) ascii_chunks))"
    unfolding ascii_chunks_text by simp
  show ?thesis
    using h
      oversized_body_destroys_socket [of sample_runtime quiet_world "lit ''/''" ascii_chunks]
    by blast
qed

section \<open>The event stream\<close>








end
